theory Spec2Isabelle
  imports Complex_Main "HOL-Library.Multiset"
begin

section \<open>Arrays\<close>

text \<open>
  The notebook \<^verbatim>\<open>2/gs-heisenberg.ipynb\<close> computes on \<^verbatim>\<open>jax.numpy\<close> arrays. An array
  is its shape and its entries in row-major order. Arithmetic is exact: entries are real or
  complex numbers, where the notebook holds \<^verbatim>\<open>float64\<close> and \<^verbatim>\<open>complex128\<close> values.
\<close>

record 'a ndarray =
  shape :: "nat list"
  data :: "'a list"

datatype error = ShapeError | IndexError | KeyError | TypeError | NameError | AttributeError | FileNotFoundError

definition valid_array :: "'a ndarray \<Rightarrow> bool" where
  "valid_array a = (length (data a) = prod_list (shape a))"

text \<open>The entries split along the leading axes: \<open>b\<close> consecutive rows of \<open>n\<close> entries.\<close>

primrec chunks :: "nat \<Rightarrow> nat \<Rightarrow> 'a list \<Rightarrow> 'a list list" where
  "chunks n 0 xs = []"
| "chunks n (Suc b) xs = take n xs # chunks n b (drop n xs)"

definition rows_of :: "'a ndarray \<Rightarrow> 'a list list" where
  "rows_of a = chunks (last (shape a)) (prod_list (butlast (shape a))) (data a)"

text \<open>\<^verbatim>\<open>x.astype(jnp.complex128)\<close> on a real array.\<close>

definition astype_complex :: "real ndarray \<Rightarrow> complex ndarray" where
  "astype_complex a = \<lparr>shape = shape a, data = map complex_of_real (data a)\<rparr>"

text \<open>
  \<^verbatim>\<open>jnp.einsum('...i,ij,...j->...', x, J, x)\<close>: for every index of the leading axes of
  \<open>x\<close>, the sum over \<open>i\<close> and \<open>j\<close> of \<open>x[..., i] * J[i, j] * x[..., j]\<close>. The subscripts
  need an axis \<open>i\<close> in \<open>x\<close> and a matrix \<open>J\<close> whose two sides are that axis. The sums and
  products of this section are those of the complex field; the rounded ones of
  \<^verbatim>\<open>complex128\<close> are in the subsection on the call in \<^verbatim>\<open>complex128\<close> below.
\<close>

definition einsum_row :: "nat \<Rightarrow> complex list \<Rightarrow> complex list \<Rightarrow> complex" where
  "einsum_row n Jd r = (\<Sum>i\<leftarrow>[0..<n]. \<Sum>j\<leftarrow>[0..<n]. r ! i * Jd ! (i * n + j) * r ! j)"

definition einsum_xJx :: "complex ndarray \<Rightarrow> complex ndarray \<Rightarrow> error + complex ndarray" where
  "einsum_xJx x Jm =
     (if shape x = [] then Inl ShapeError
      else if shape Jm \<noteq> [last (shape x), last (shape x)] then Inl ShapeError
      else Inr \<lparr>shape = butlast (shape x),
                data = map (einsum_row (last (shape x)) (data Jm)) (rows_of x)\<rparr>)"

text \<open>
  \<^verbatim>\<open>x @ V\<close> for a matrix \<open>V\<close> of shape \<open>(n, k)\<close>: the last axis of \<open>x\<close> is contracted with
  the first axis of \<open>V\<close>. The notebook's second operand is always the \<open>(N, 1)\<close> bias of
  \<^verbatim>\<open>Jastrow.__init__\<close>; operands \<open>V\<close> of another rank are not modelled and reported as
  \<open>ShapeError\<close>.
\<close>

definition matvec_row :: "nat \<Rightarrow> nat \<Rightarrow> complex list \<Rightarrow> complex list \<Rightarrow> complex list" where
  "matvec_row n k Vd r = map (\<lambda>c. \<Sum>i\<leftarrow>[0..<n]. r ! i * Vd ! (i * k + c)) [0..<k]"

definition matmul :: "complex ndarray \<Rightarrow> complex ndarray \<Rightarrow> error + complex ndarray" where
  "matmul x V =
     (case shape V of
        [n, k] \<Rightarrow>
          (if shape x = [] \<or> last (shape x) \<noteq> n then Inl ShapeError
           else Inr \<lparr>shape = butlast (shape x) @ [k],
                     data = concat (map (matvec_row n k (data V)) (rows_of x))\<rparr>)
      | _ \<Rightarrow> Inl ShapeError)"

text \<open>\<^verbatim>\<open>jnp.squeeze(a, -1)\<close>: drops the last axis, which must have size one.\<close>

definition squeeze_last :: "'a ndarray \<Rightarrow> error + 'a ndarray" where
  "squeeze_last a =
     (if shape a \<noteq> [] \<and> last (shape a) = 1
      then Inr \<lparr>shape = butlast (shape a), data = data a\<rparr>
      else Inl ShapeError)"

text \<open>
  \<^verbatim>\<open>quad + lin\<close>: entrywise sum of two arrays of one shape. Both operands of the notebook's
  sum have the shape of the leading axes of \<open>x\<close>, so no broadcasting arises; unequal
  shapes are not modelled and reported as \<open>ShapeError\<close>.
\<close>

definition add_arrays :: "complex ndarray \<Rightarrow> complex ndarray \<Rightarrow> error + complex ndarray" where
  "add_arrays a b =
     (if shape a = shape b
      then Inr \<lparr>shape = shape a, data = map2 (+) (data a) (data b)\<rparr>
      else Inl ShapeError)"

section \<open>The Jastrow ansatz\<close>

text \<open>
  \<^verbatim>\<open>class Jastrow(nnx.Module)\<close>: the parameters are \<open>J\<close> of shape \<open>(N, N)\<close> and
  \<open>v_bias\<close> of shape \<open>(N, 1)\<close>, both \<^verbatim>\<open>complex128\<close>. \<^verbatim>\<open>__init__\<close> fills them with
  0.01 times normal draws; the draws (entry \<open>i\<close> of each array) are parameters of the model.
\<close>

record Jastrow =
  J :: "complex ndarray"
  v_bias :: "complex ndarray"

definition Jastrow_init :: "nat \<Rightarrow> (nat \<Rightarrow> complex) \<Rightarrow> (nat \<Rightarrow> complex) \<Rightarrow> Jastrow" where
  "Jastrow_init N normal1 normal2 =
     \<lparr>J = \<lparr>shape = [N, N], data = map (\<lambda>i. (1 / 100) * normal1 i) [0..<N * N]\<rparr>,
      v_bias = \<lparr>shape = [N, 1], data = map (\<lambda>i. (1 / 100) * normal2 i) [0..<N]\<rparr>\<rparr>"

text \<open>The shapes \<^verbatim>\<open>__init__\<close> gives the parameters, which the optimizer keeps.\<close>

definition Jastrow_shapes :: "nat \<Rightarrow> Jastrow \<Rightarrow> bool" where
  "Jastrow_shapes N m =
     (shape (J m) = [N, N] \<and> length (data (J m)) = N * N \<and>
      shape (v_bias m) = [N, 1] \<and> length (data (v_bias m)) = N)"

text \<open>
  \<^verbatim>\<open>
  def __call__(self, x):
      x = x.astype(jnp.complex128)
      quad = jnp.einsum('...i,ij,...j->...', x, self.J, x)
      lin  = jnp.squeeze(x @ self.v_bias, -1)
      return quad + lin
  \<close>
\<close>

definition Jastrow_call :: "Jastrow \<Rightarrow> real ndarray \<Rightarrow> error + complex ndarray" where
  "Jastrow_call m x0 =
     (let x = astype_complex x0 in
      case einsum_xJx x (J m) of
        Inl e \<Rightarrow> Inl e
      | Inr quad \<Rightarrow>
          (case matmul x (v_bias m) of
             Inl e \<Rightarrow> Inl e
           | Inr xv \<Rightarrow>
               (case squeeze_last xv of
                  Inl e \<Rightarrow> Inl e
                | Inr lin \<Rightarrow> add_arrays quad lin)))"

subsection \<open>The formula of the ansatz\<close>

text \<open>
  The formula in words: the dot product of two vectors, the product of a matrix (row-major,
  \<open>n\<close> columns) with a vector, and the quadratic form \<open>x\<^sup>T J x\<close>.
\<close>

definition dot :: "complex list \<Rightarrow> complex list \<Rightarrow> complex" where
  "dot u v = sum_list (map2 (*) u v)"

definition mat_row :: "nat \<Rightarrow> complex list \<Rightarrow> nat \<Rightarrow> complex list" where
  "mat_row n A i = take n (drop (i * n) A)"

definition mat_vec :: "nat \<Rightarrow> complex list \<Rightarrow> complex list \<Rightarrow> complex list" where
  "mat_vec n A v = map (\<lambda>i. dot (mat_row n A i) v) [0..<n]"

definition quadratic_form :: "nat \<Rightarrow> complex list \<Rightarrow> complex list \<Rightarrow> complex" where
  "quadratic_form n A v = dot v (mat_vec n A v)"

text \<open>
  The transpose of an \<open>n\<close> by \<open>n\<close> matrix given by its row-major entries, and its
  symmetric part \<open>(A + A\<^sup>T) / 2\<close>.
\<close>

definition transpose_matrix :: "nat \<Rightarrow> complex list \<Rightarrow> complex list" where
  "transpose_matrix n A = map (\<lambda>k. A ! ((k mod n) * n + k div n)) [0..<n * n]"

definition symmetric_part :: "nat \<Rightarrow> complex list \<Rightarrow> complex list" where
  "symmetric_part n A = map (\<lambda>k. (A ! k + transpose_matrix n A ! k) / 2) [0..<n * n]"

subsection \<open>The call in \<^verbatim>\<open>complex128\<close>\<close>

text \<open>
  The notebook's arithmetic is in \<^verbatim>\<open>complex128\<close>: a pair of binary64 numbers, every operation
  rounded to the nearest binary64 number, ties to the even significand. \<open>round_float64\<close> is
  that rounding on the normal and subnormal range (53 significant bits, least exponent
  \<open>-1022\<close>); overflow to infinity is not modelled.
\<close>

primrec exponent_search :: "nat \<Rightarrow> real \<Rightarrow> int" where
  "exponent_search 0 a = 0"
| "exponent_search (Suc n) a =
     (if 2 \<le> a then exponent_search n (a / 2) + 1
      else if a < 1 then exponent_search n (2 * a) - 1
      else 0)"

definition round_even :: "real \<Rightarrow> int" where
  "round_even y =
     (let f = \<lfloor>y\<rfloor> in
      if y - of_int f < 1 / 2 then f
      else if 1 / 2 < y - of_int f then f + 1
      else if even f then f else f + 1)"

definition round_float64 :: "real \<Rightarrow> real" where
  "round_float64 x =
     (if x = 0 then 0
      else let e = max (exponent_search 2200 \<bar>x\<bar>) (- 1022)
           in sgn x * of_int (round_even (\<bar>x\<bar> * 2 powi (52 - e))) * 2 powi (e - 52))"

definition c128_add :: "complex \<Rightarrow> complex \<Rightarrow> complex" where
  "c128_add a b = Complex (round_float64 (Re a + Re b)) (round_float64 (Im a + Im b))"

definition c128_mul :: "complex \<Rightarrow> complex \<Rightarrow> complex" where
  "c128_mul a b =
     Complex (round_float64 (round_float64 (Re a * Re b) - round_float64 (Im a * Im b)))
             (round_float64 (round_float64 (Re a * Im b) + round_float64 (Im a * Re b)))"

definition c128_sum :: "complex list \<Rightarrow> complex" where
  "c128_sum zs = foldl c128_add 0 zs"

text \<open>
  The order in which \<^verbatim>\<open>jnp.einsum\<close> contracts \<open>x\<close>, \<open>J\<close> and \<open>x\<close> is the library's choice:
  all products summed in one pass, \<open>x J\<close> first, or \<open>J x\<close> first.
\<close>

datatype contraction = One_pass | Left_first | Right_first

definition einsum_row_c128 :: "contraction \<Rightarrow> nat \<Rightarrow> complex list \<Rightarrow> complex list \<Rightarrow> complex" where
  "einsum_row_c128 ord n Jd r =
     (case ord of
        One_pass \<Rightarrow>
          c128_sum (concat (map (\<lambda>i. map (\<lambda>j. c128_mul (c128_mul (r ! i) (Jd ! (i * n + j))) (r ! j))
                                          [0..<n]) [0..<n]))
      | Left_first \<Rightarrow>
          c128_sum (map (\<lambda>j. c128_mul (c128_sum (map (\<lambda>i. c128_mul (r ! i) (Jd ! (i * n + j))) [0..<n]))
                                      (r ! j)) [0..<n])
      | Right_first \<Rightarrow>
          c128_sum (map (\<lambda>i. c128_mul (r ! i)
                                      (c128_sum (map (\<lambda>j. c128_mul (Jd ! (i * n + j)) (r ! j)) [0..<n])))
                        [0..<n]))"

definition einsum_xJx_c128 ::
    "contraction \<Rightarrow> complex ndarray \<Rightarrow> complex ndarray \<Rightarrow> error + complex ndarray" where
  "einsum_xJx_c128 ord x Jm =
     (if shape x = [] then Inl ShapeError
      else if shape Jm \<noteq> [last (shape x), last (shape x)] then Inl ShapeError
      else Inr \<lparr>shape = butlast (shape x),
                data = map (einsum_row_c128 ord (last (shape x)) (data Jm)) (rows_of x)\<rparr>)"

definition matvec_row_c128 :: "nat \<Rightarrow> nat \<Rightarrow> complex list \<Rightarrow> complex list \<Rightarrow> complex list" where
  "matvec_row_c128 n k Vd r =
     map (\<lambda>c. c128_sum (map (\<lambda>i. c128_mul (r ! i) (Vd ! (i * k + c))) [0..<n])) [0..<k]"

definition matmul_c128 :: "complex ndarray \<Rightarrow> complex ndarray \<Rightarrow> error + complex ndarray" where
  "matmul_c128 x V =
     (case shape V of
        [n, k] \<Rightarrow>
          (if shape x = [] \<or> last (shape x) \<noteq> n then Inl ShapeError
           else Inr \<lparr>shape = butlast (shape x) @ [k],
                     data = concat (map (matvec_row_c128 n k (data V)) (rows_of x))\<rparr>)
      | _ \<Rightarrow> Inl ShapeError)"

definition add_arrays_c128 :: "complex ndarray \<Rightarrow> complex ndarray \<Rightarrow> error + complex ndarray" where
  "add_arrays_c128 a b =
     (if shape a = shape b
      then Inr \<lparr>shape = shape a, data = map2 c128_add (data a) (data b)\<rparr>
      else Inl ShapeError)"

text \<open>\<^verbatim>\<open>Jastrow.__call__\<close> with every sum and product rounded.\<close>

definition Jastrow_call_c128 ::
    "contraction \<Rightarrow> Jastrow \<Rightarrow> real ndarray \<Rightarrow> error + complex ndarray" where
  "Jastrow_call_c128 ord m x0 =
     (let x = astype_complex x0 in
      case einsum_xJx_c128 ord x (J m) of
        Inl e \<Rightarrow> Inl e
      | Inr quad \<Rightarrow>
          (case matmul_c128 x (v_bias m) of
             Inl e \<Rightarrow> Inl e
           | Inr xv \<Rightarrow>
               (case squeeze_last xv of
                  Inl e \<Rightarrow> Inl e
                | Inr lin \<Rightarrow> add_arrays_c128 quad lin)))"

text \<open>
  Parameters whose coupling matrix is not symmetric: \<open>0.1\<close> as binary64 holds it, \<open>1\<close> and
  \<open>0\<close>; and the same with the matrix transposed.
\<close>

definition rounding_Jastrow :: Jastrow where
  "rounding_Jastrow =
     \<lparr>J = \<lparr>shape = [2, 2],
            data = [complex_of_real (round_float64 (1 / 10)),
                    complex_of_real (round_float64 (1 / 10)), 1, 0]\<rparr>,
      v_bias = \<lparr>shape = [2, 1], data = [0, 0]\<rparr>\<rparr>"

definition rounding_Jastrow_transposed :: Jastrow where
  "rounding_Jastrow_transposed =
     rounding_Jastrow\<lparr>J := \<lparr>shape = [2, 2], data = transpose_matrix 2 (data (J rounding_Jastrow))\<rparr>\<rparr>"

section \<open>The feed-forward ansatz definitions\<close>


datatype tensor = RealArray "real ndarray" | ComplexArray "complex ndarray"


fun promote_complex :: "tensor \<Rightarrow> complex ndarray" where
  "promote_complex (RealArray a) = astype_complex a"
| "promote_complex (ComplexArray a) = a"

text \<open>
  \<^verbatim>\<open>nnx.Linear\<close> is the library's affine layer, modelled as the library documents it. The
  layer holds a kernel of shape \<open>(in_features, out_features)\<close> and a bias of shape
  \<open>(out_features)\<close>. Its argument \<^verbatim>\<open>dtype\<close> is the dtype of the computation: with
  \<^verbatim>\<open>dtype=jnp.complex128\<close> the call promotes the input, the kernel and the bias to
  \<^verbatim>\<open>complex128\<close> and computes \<open>x @ kernel + bias\<close>, the bias added to every row.
\<close>

record Linear =
  kernel :: tensor
  bias :: tensor

definition promoted_kernel :: "Linear \<Rightarrow> complex ndarray" where
  "promoted_kernel L = promote_complex (kernel L)"

definition promoted_bias :: "Linear \<Rightarrow> complex ndarray" where
  "promoted_bias L = promote_complex (bias L)"

definition Linear_shapes :: "nat \<Rightarrow> nat \<Rightarrow> Linear \<Rightarrow> bool" where
  "Linear_shapes n k L =
     (shape (promoted_kernel L) = [n, k] \<and> length (data (promoted_kernel L)) = n * k \<and>
      shape (promoted_bias L) = [k] \<and> length (data (promoted_bias L)) = k)"


text \<open>
  \<open>y + bias\<close> along the last axis. The bias has \<open>out_features\<close> entries by construction;
  a bias of another shape is not modelled and reported as \<open>ShapeError\<close>.
\<close>

definition add_bias :: "complex ndarray \<Rightarrow> complex ndarray \<Rightarrow> error + complex ndarray" where
  "add_bias y b =
     (if shape y \<noteq> [] \<and> shape b = [last (shape y)]
      then Inr \<lparr>shape = shape y, data = concat (map (\<lambda>r. map2 (+) r (data b)) (rows_of y))\<rparr>
      else Inl ShapeError)"

definition Linear_call :: "Linear \<Rightarrow> complex ndarray \<Rightarrow> error + complex ndarray" where
  "Linear_call L x =
     (case matmul x (promoted_kernel L) of
        Inl e \<Rightarrow> Inl e
      | Inr y \<Rightarrow> add_bias y (promoted_bias L))"

text \<open>An elementwise function, as \<^verbatim>\<open>nk.nn.activation.log_cosh(x)\<close> is applied.\<close>

definition map_array :: "('a \<Rightarrow> 'b) \<Rightarrow> 'a ndarray \<Rightarrow> 'b ndarray" where
  "map_array f a = \<lparr>shape = shape a, data = map f (data a)\<rparr>"

text \<open>\<^verbatim>\<open>jnp.sum(x, axis=-1)\<close>: an array without axes has no last axis.\<close>

definition sum_last :: "complex ndarray \<Rightarrow> error + complex ndarray" where
  "sum_last a =
     (if shape a = [] then Inl ShapeError
      else Inr \<lparr>shape = butlast (shape a), data = map sum_list (rows_of a)\<rparr>)"

text \<open>
  \<^verbatim>\<open>
  class Model(nnx.Module):
      def __init__(self, N: int, *, rngs: nnx.Rngs):
          self.linear = nnx.Linear(in_features=N, out_features=2 * N, dtype=jnp.complex128, rngs=rngs)
      def __call__(self, x: jax.Array):
          x = self.linear(x)
          x = nk.nn.activation.log_cosh(x)
          return jnp.sum(x, axis=-1)
  \<close>
  The activation \<^verbatim>\<open>nk.nn.activation.log_cosh\<close> is library code applied entry by entry; it is
  the parameter \<open>log_cosh\<close> of the calls. The layer takes the real configuration to
  \<^verbatim>\<open>complex128\<close> before it computes.
\<close>

record Model =
  linear :: Linear


definition Model_shapes :: "nat \<Rightarrow> Model \<Rightarrow> bool" where
  "Model_shapes N m = Linear_shapes N (2 * N) (linear m)"

definition Model_call :: "(complex \<Rightarrow> complex) \<Rightarrow> Model \<Rightarrow> real ndarray \<Rightarrow> error + complex ndarray" where
  "Model_call log_cosh m x0 =
     (case Linear_call (linear m) (astype_complex x0) of
        Inl e \<Rightarrow> Inl e
      | Inr x1 \<Rightarrow> sum_last (map_array log_cosh x1))"

text \<open>
  \<^verbatim>\<open>
  class Model2(nnx.Module):
      def __init__(self, N: int, *, rngs: nnx.Rngs):
          self.linear1 = nnx.Linear(in_features=N, out_features=2 * N, dtype=jnp.complex128, rngs=rngs)
          self.linear2 = nnx.Linear(in_features=2 * N, out_features=N, dtype=jnp.complex128, rngs=rngs)
      def __call__(self, x: jax.Array):
          x = self.linear1(x)
          x = nk.nn.activation.log_cosh(x)
          x = self.linear2(x)
          x = nk.nn.activation.log_cosh(x)
          return jnp.sum(x, axis=-1)
  \<close>
\<close>

record Model2 =
  linear1 :: Linear
  linear2 :: Linear


definition Model2_shapes :: "nat \<Rightarrow> Model2 \<Rightarrow> bool" where
  "Model2_shapes N m = (Linear_shapes N (2 * N) (linear1 m) \<and> Linear_shapes (2 * N) N (linear2 m))"

definition Model2_call :: "(complex \<Rightarrow> complex) \<Rightarrow> Model2 \<Rightarrow> real ndarray \<Rightarrow> error + complex ndarray" where
  "Model2_call log_cosh m x0 =
     (case Linear_call (linear1 m) (astype_complex x0) of
        Inl e \<Rightarrow> Inl e
      | Inr x1 \<Rightarrow>
          (case Linear_call (linear2 m) (map_array log_cosh x1) of
             Inl e \<Rightarrow> Inl e
           | Inr x2 \<Rightarrow> sum_last (map_array log_cosh x2)))"

subsection \<open>Batches and the formulas of the feed-forward ansatz definitions\<close>

text \<open>\<^verbatim>\<open>X[i]\<close>: the \<open>i\<close>-th item along the first axis.\<close>

definition getitem_row :: "'a ndarray \<Rightarrow> nat \<Rightarrow> error + 'a ndarray" where
  "getitem_row a i =
     (case shape a of
        [] \<Rightarrow> Inl IndexError
      | b # s \<Rightarrow>
          if i < b
          then Inr \<lparr>shape = s, data = take (prod_list s) (drop (i * prod_list s) (data a))\<rparr>
          else Inl IndexError)"



text \<open>What a linear layer computes on one row of its input.\<close>

definition Linear_row :: "nat \<Rightarrow> nat \<Rightarrow> Linear \<Rightarrow> complex list \<Rightarrow> complex list" where
  "Linear_row n k L r =
     map2 (+) (matvec_row n k (data (promoted_kernel L)) r) (data (promoted_bias L))"

text \<open>
  Batch evaluation is elementwise independent: on a batch \<open>X\<close> of \<open>B\<close> configurations the
  call returns an array of shape \<open>(B)\<close> whose \<open>i\<close>-th entry is what the call returns on
  \<open>X[i]\<close> alone.
\<close>

definition batch_independent ::
    "(real ndarray \<Rightarrow> error + complex ndarray) \<Rightarrow> real ndarray \<Rightarrow> nat \<Rightarrow> bool" where
  "batch_independent call X B =
     (case call X of
        Inl e \<Rightarrow> False
      | Inr Y \<Rightarrow>
          shape Y = [B] \<and> length (data Y) = B \<and>
          (\<forall>i \<in> set [0..<B].
             case getitem_row X i of
               Inl e \<Rightarrow> False
             | Inr xi \<Rightarrow> call xi = Inr \<lparr>shape = [], data = [data Y ! i]\<rparr>))"

section \<open>The constrained configuration space and the exchange sampler\<close>

text \<open>
  Modelled from the spec: \<^verbatim>\<open>nk.hilbert.Spin(s=0.5, total_sz=0, N=g.n_nodes)\<close> is library code.
  The constrained configuration space is "the set of all assignments of a binary (spin-up/down)
  value to each site, restricted to the subset with a fixed sum". The two values are written
  \<open>1\<close> and \<open>-1\<close>, as the notebook's Hamiltonian is in Pauli matrices.
\<close>

type_synonym config = "int list"

definition in_hilbert :: "nat \<Rightarrow> int \<Rightarrow> config \<Rightarrow> bool" where
  "in_hilbert N mag x =
     (length x = N \<and> list_all (\<lambda>v. v = 1 \<or> v = - 1) x \<and> sum_list x = mag)"

text \<open>
  Modelled from the spec: the exchange move of \<^verbatim>\<open>nk.sampler.MetropolisExchange\<close> (library
  code) is "a Markov-chain proposal that swaps two site values". Sites outside the
  configuration are never proposed; the move leaves the configuration as it is there.
\<close>

definition exchange :: "nat \<Rightarrow> nat \<Rightarrow> config \<Rightarrow> config" where
  "exchange i j x = (if i < length x \<and> j < length x then x[i := x ! j, j := x ! i] else x)"

text \<open>
  \<^verbatim>\<open>nk.graph.Hypercube(length=L, n_dim=1, pbc=True)\<close>: the periodic chain, whose edges join
  site \<open>i\<close> and site \<open>i + 1\<close> modulo \<open>L\<close>. The sampler is built with \<^verbatim>\<open>graph=g\<close> and, as the
  notebook's comment says, "exchanges two neighboring sites".
\<close>

definition chain_edges :: "nat \<Rightarrow> (nat \<times> nat) list" where
  "chain_edges L = map (\<lambda>i. (i, Suc i mod L)) [0..<L]"

text \<open>
  Modelled from the spec: one step of the sampler's Markov chain proposes the exchange along
  an edge and accepts or rejects it. Which edge is drawn and whether the proposal is
  accepted (both random, the latter depending on the ansatz) are the step's input.
\<close>

definition metropolis_step :: "(nat \<times> nat) list \<Rightarrow> config \<Rightarrow> nat \<times> bool \<Rightarrow> config" where
  "metropolis_step edges x p =
     (if fst p < length edges \<and> snd p
      then exchange (fst (edges ! fst p)) (snd (edges ! fst p)) x
      else x)"

text \<open>The configurations a chain visits from \<open>x\<close> under a sequence of steps.\<close>

fun visited :: "(nat \<times> nat) list \<Rightarrow> config \<Rightarrow> (nat \<times> bool) list \<Rightarrow> config list" where
  "visited edges x [] = [x]"
| "visited edges x (p # ps) = x # visited edges (metropolis_step edges x p) ps"

section \<open>Parameters of the restricted Boltzmann machines\<close>

text \<open>
  Modelled from the spec: \<^verbatim>\<open>nk.models.RBM(alpha=1)\<close> is library code. The restricted
  Boltzmann form is "visible bias term + sum over hidden units of log-cosh of an affine
  transform of the input"; in the notebook's words the visible biases \<open>a\<^sub>i\<close>, the hidden
  biases \<open>b\<^sub>i\<close> and the weights \<open>W\<^sub>i\<^sub>j\<close> are the variational parameters, with
  \<open>M = alpha * N\<close> hidden units for \<open>N\<close> sites.
\<close>

datatype param = VisibleBias nat | HiddenBias nat | Weight nat nat

definition RBM_parameters :: "nat \<Rightarrow> nat \<Rightarrow> param list" where
  "RBM_parameters N alpha =
     map VisibleBias [0..<N] @ map HiddenBias [0..<alpha * N] @
     concat (map (\<lambda>h. map (Weight h) [0..<N]) [0..<alpha * N])"

text \<open>
  Modelled from the spec: \<^verbatim>\<open>nk.models.RBMSymm(symmetries=g.translation_group(), alpha=1)\<close> is
  library code; the form is "constrained so that translation-equivalent sites share
  parameters", the independent values being "broadcast across translates". Hidden unit
  \<open>h\<close> is translate \<open>h mod N\<close> of feature \<open>h div N\<close>: all visible biases share one value,
  the hidden biases of a feature share one value, and the weight between hidden unit \<open>h\<close>
  and site \<open>i\<close> is that of the feature at the site shifted back by the translate. The
  independent parameters are the representatives.
\<close>

fun translate_share :: "nat \<Rightarrow> param \<Rightarrow> param" where
  "translate_share N (VisibleBias i) = VisibleBias 0"
| "translate_share N (HiddenBias h) = HiddenBias (h div N)"
| "translate_share N (Weight h i) = Weight (h div N) ((i + N - h mod N) mod N)"

definition RBMSymm_parameters :: "nat \<Rightarrow> nat \<Rightarrow> param list" where
  "RBMSymm_parameters N alpha = remdups (map (translate_share N) (RBM_parameters N alpha))"

section \<open>Logs and reporting\<close>

text \<open>What \<^verbatim>\<open>json.load\<close> returns: a JSON value, an object being a dictionary.\<close>

datatype json =
    JNull
  | JInt int
  | JFloat real
  | JStr string
  | JList "json list"
  | JDict "(string \<times> json) list"

text \<open>
  \<^verbatim>\<open>d[k]\<close> with a string key: a dictionary without the key raises \<^verbatim>\<open>KeyError\<close>, a value
  that is no dictionary raises \<^verbatim>\<open>TypeError\<close>.
\<close>

definition getitem :: "json \<Rightarrow> string \<Rightarrow> error + json" where
  "getitem j k =
     (case j of
        JDict kvs \<Rightarrow> (case map_of kvs k of None \<Rightarrow> Inl KeyError | Some v \<Rightarrow> Inr v)
      | _ \<Rightarrow> Inl TypeError)"

fun subscript :: "json \<Rightarrow> string list \<Rightarrow> error + json" where
  "subscript j [] = Inr j"
| "subscript j (k # ks) = (case getitem j k of Inl e \<Rightarrow> Inl e | Inr v \<Rightarrow> subscript v ks)"

text \<open>\<^verbatim>\<open>json.load(open(f))\<close>; the files hold JSON values.\<close>

definition load_log :: "(string \<rightharpoonup> json) \<Rightarrow> string \<Rightarrow> error + json" where
  "load_log fs f = (case fs f of None \<Rightarrow> Inl FileNotFoundError | Some j \<Rightarrow> Inr j)"

text \<open>
  The reporting step of a plotting cell:
  \<^verbatim>\<open>
  data = json.load(open("RBM.log"))
  iters_RBM = data["Energy"]["iters"]
  energy_RBM = data["Energy"]["Mean"]
  \<close>
  and, for the Jastrow and the feed-forward runs, \<^verbatim>\<open>data["Energy"]["Mean"]["real"]\<close>.
\<close>

definition report :: "(string \<rightharpoonup> json) \<Rightarrow> string \<Rightarrow> string list \<Rightarrow> error + json \<times> json" where
  "report fs f mean_keys =
     (case load_log fs f of
        Inl e \<Rightarrow> Inl e
      | Inr d \<Rightarrow>
          (case subscript d [''Energy'', ''iters''] of
             Inl e \<Rightarrow> Inl e
           | Inr its \<Rightarrow>
               (case subscript d mean_keys of
                  Inl e \<Rightarrow> Inl e
                | Inr en \<Rightarrow> Inr (its, en))))"

text \<open>
  Modelled from the spec: the writer of the log is the library's driver. The persisted log
  format is "one file per run, keyed by run name, containing at minimum a mapping from metric
  name ("Energy") to a record with an ordered sequence of iteration indices and corresponding
  mean (and optionally real/imaginary decomposed) estimates". Further columns of the record
  and further metrics may follow.
\<close>

datatype mean_column = Plain "real list" | Decomposed "real list" "real list"

record energy_log =
  iters :: "int list"
  Mean :: mean_column
  more_columns :: "(string \<times> json) list"
  more_metrics :: "(string \<times> json) list"

fun encode_mean :: "mean_column \<Rightarrow> json" where
  "encode_mean (Plain ms) = JList (map JFloat ms)"
| "encode_mean (Decomposed re im) =
     JDict [(''real'', JList (map JFloat re)), (''imag'', JList (map JFloat im))]"

definition encode_log :: "energy_log \<Rightarrow> json" where
  "encode_log l =
     JDict ((''Energy'',
             JDict ([(''iters'', JList (map JInt (iters l))), (''Mean'', encode_mean (Mean l))] @
                    more_columns l)) # more_metrics l)"

definition write_log :: "(string \<rightharpoonup> json) \<Rightarrow> string \<Rightarrow> energy_log \<Rightarrow> (string \<rightharpoonup> json)" where
  "write_log fs out l = fs(out @ ''.log'' \<mapsto> encode_log l)"

section \<open>The notebook's cells\<close>

text \<open>
  The code cells of the notebook, run once from top to bottom in one Python process, as a
  list of statements over one namespace. An argument is a variable or a literal kept as text.
\<close>

datatype arg = Var string | Lit string

text \<open>
  \<^item> \<open>Import m a\<close>: \<^verbatim>\<open>import m as a\<close>;
  \<^item> \<open>EnvSet k v\<close>: \<^verbatim>\<open>os.environ[k] = v\<close>;
  \<^item> \<open>ClassDef c\<close>: a \<^verbatim>\<open>class\<close> statement;
  \<^item> \<open>Assign x a\<close>: \<^verbatim>\<open>x = a\<close> for a literal or a variable;
  \<^item> \<open>Bind x c args\<close>: \<^verbatim>\<open>x = c(args)\<close>, which builds a new object; positional
    arguments are named by their position;
  \<^item> \<open>Run d n out\<close>: \<^verbatim>\<open>d.run(n_iter=n, out=out)\<close> on the driver bound to \<open>d\<close>;
  \<^item> \<open>Load x f\<close>: \<^verbatim>\<open>x = json.load(open(f))\<close>;
  \<^item> \<open>Subscript y x ks\<close>: \<^verbatim>\<open>y = x[k1][k2]...\<close> on loaded data;
  \<^item> \<open>Pass t\<close>: consecutive statements without effect on the state modelled (the prints
    of a cell, the plotting calls of a cell, the \<^verbatim>\<open>%pip\<close> magic).
\<close>

datatype stmt =
    Import string string
  | EnvSet string string
  | ClassDef string
  | Assign string arg
  | Bind string string "(string \<times> arg) list"
  | Run string nat string
  | Load string string
  | Subscript string string "string list"
  | Pass string

text \<open>
  A name is bound to an object of the heap, a literal, a module, a class, or data loaded
  from the log of a run (the run's index and the keys applied so far).
\<close>

datatype val = Obj nat | Text string | Module string | Class string | Doc nat "string list"

record obj =
  cls :: string
  attrs :: "(string \<times> val) list"
  born :: nat

text \<open>
  What a call of the driver's \<^verbatim>\<open>run\<close> works with: the output name, the iteration count,
  the statement it is, and the model, sampler and optimizer objects the driver holds.
\<close>

record run =
  run_out :: string
  run_n_iter :: nat
  run_at :: nat
  run_model :: nat
  run_sampler :: nat
  run_optimizer :: nat

datatype event = Imported string | EnvWritten string string | Ran string | Loaded string

record nb_state =
  vars :: "(string \<times> val) list"
  heap :: "obj list"
  environ :: "(string \<times> string) list"
  files :: "(string \<times> nat) list"
  runs :: "run list"
  events :: "(nat \<times> event) list"

definition initial :: nb_state where
  "initial = \<lparr>vars = [], heap = [], environ = [], files = [], runs = [], events = []\<rparr>"

definition eval_arg :: "nb_state \<Rightarrow> arg \<Rightarrow> error + val" where
  "eval_arg s a =
     (case a of
        Lit t \<Rightarrow> Inr (Text t)
      | Var x \<Rightarrow> (case map_of (vars s) x of None \<Rightarrow> Inl NameError | Some v \<Rightarrow> Inr v))"

fun eval_args :: "nb_state \<Rightarrow> (string \<times> arg) list \<Rightarrow> error + (string \<times> val) list" where
  "eval_args s [] = Inr []"
| "eval_args s ((k, a) # as) =
     (case eval_arg s a of
        Inl e \<Rightarrow> Inl e
      | Inr v \<Rightarrow> (case eval_args s as of Inl e \<Rightarrow> Inl e | Inr vs \<Rightarrow> Inr ((k, v) # vs)))"

text \<open>The object stored under an attribute of an object.\<close>

definition attr_obj :: "nb_state \<Rightarrow> nat \<Rightarrow> string \<Rightarrow> error + nat" where
  "attr_obj s i a =
     (if i < length (heap s)
      then (case map_of (attrs (heap s ! i)) a of
              Some (Obj j) \<Rightarrow> Inr j
            | _ \<Rightarrow> Inl AttributeError)
      else Inl AttributeError)"

text \<open>
  \<^verbatim>\<open>gs.run(...)\<close> trains the model of \<^verbatim>\<open>gs.variational_state\<close> with that state's sampler
  and with \<^verbatim>\<open>gs.optimizer\<close>, as \<^verbatim>\<open>nk.VMC(hamiltonian, optimizer, preconditioner,
  variational_state)\<close> and \<^verbatim>\<open>nk.vqs.MCState(sampler, model, n_samples)\<close> received them.
\<close>

definition resolve_run :: "nb_state \<Rightarrow> string \<Rightarrow> nat \<Rightarrow> string \<Rightarrow> nat \<Rightarrow> error + run" where
  "resolve_run s d n out i =
     (case map_of (vars s) d of
        None \<Rightarrow> Inl NameError
      | Some (Obj g) \<Rightarrow>
          (case attr_obj s g ''optimizer'' of
             Inl e \<Rightarrow> Inl e
           | Inr opt \<Rightarrow>
               (case attr_obj s g ''variational_state'' of
                  Inl e \<Rightarrow> Inl e
                | Inr v \<Rightarrow>
                    (case attr_obj s v ''0'' of
                       Inl e \<Rightarrow> Inl e
                     | Inr sam \<Rightarrow>
                         (case attr_obj s v ''1'' of
                            Inl e \<Rightarrow> Inl e
                          | Inr mo \<Rightarrow>
                              Inr \<lparr>run_out = out, run_n_iter = n, run_at = i, run_model = mo,
                                   run_sampler = sam, run_optimizer = opt\<rparr>))))
      | Some _ \<Rightarrow> Inl AttributeError)"

text \<open>
  One statement. A run writes the log file \<open>out.log\<close>; loading a file no run has written
  fails.
\<close>

fun exec_stmt :: "nat \<Rightarrow> stmt \<Rightarrow> nb_state \<Rightarrow> error + nb_state" where
  "exec_stmt i (Import m a) s =
     Inr (s\<lparr>vars := (a, Module m) # vars s, events := events s @ [(i, Imported m)]\<rparr>)"
| "exec_stmt i (EnvSet k v) s =
     Inr (s\<lparr>environ := (k, v) # environ s, events := events s @ [(i, EnvWritten k v)]\<rparr>)"
| "exec_stmt i (ClassDef c) s = Inr (s\<lparr>vars := (c, Class c) # vars s\<rparr>)"
| "exec_stmt i (Assign x a) s =
     (case eval_arg s a of
        Inl e \<Rightarrow> Inl e
      | Inr v \<Rightarrow> Inr (s\<lparr>vars := (x, v) # vars s\<rparr>))"
| "exec_stmt i (Bind x c as) s =
     (case eval_args s as of
        Inl e \<Rightarrow> Inl e
      | Inr vs \<Rightarrow>
          Inr (s\<lparr>vars := (x, Obj (length (heap s))) # vars s,
                 heap := heap s @ [\<lparr>cls = c, attrs = vs, born = i\<rparr>]\<rparr>))"
| "exec_stmt i (Run d n out) s =
     (case resolve_run s d n out i of
        Inl e \<Rightarrow> Inl e
      | Inr r \<Rightarrow>
          Inr (s\<lparr>files := (out @ ''.log'', length (runs s)) # files s,
                 runs := runs s @ [r],
                 events := events s @ [(i, Ran out)]\<rparr>))"
| "exec_stmt i (Load x f) s =
     (case map_of (files s) f of
        None \<Rightarrow> Inl FileNotFoundError
      | Some k \<Rightarrow>
          Inr (s\<lparr>vars := (x, Doc k []) # vars s, events := events s @ [(i, Loaded f)]\<rparr>))"
| "exec_stmt i (Subscript y x ks) s =
     (case map_of (vars s) x of
        None \<Rightarrow> Inl NameError
      | Some (Doc k p) \<Rightarrow> Inr (s\<lparr>vars := (y, Doc k (p @ ks)) # vars s\<rparr>)
      | Some _ \<Rightarrow> Inl TypeError)"
| "exec_stmt i (Pass t) s = Inr s"

fun exec_from :: "nat \<Rightarrow> stmt list \<Rightarrow> nb_state \<Rightarrow> error + nb_state" where
  "exec_from i [] s = Inr s"
| "exec_from i (c # cs) s =
     (case exec_stmt i c s of Inl e \<Rightarrow> Inl e | Inr s' \<Rightarrow> exec_from (Suc i) cs s')"

text \<open>
  The statements of the code cells, in order, counted from 0. Statements 1 and 2 are the
  cell that sets the platform, statement 3 imports \<^verbatim>\<open>netket\<close>, and the five calls of
  \<^verbatim>\<open>gs.run\<close> are statements 27, 41, 55, 70 and 84.
\<close>

definition notebook :: "stmt list" where
  "notebook =
    [Pass ''%pip install --quiet netket'',
     Import ''os'' ''os'',
     EnvSet ''JAX_PLATFORM_NAME'' ''cpu'',
     Import ''netket'' ''nk'',
     Import ''json'' ''json'',
     Import ''numpy'' ''np'',
     Import ''matplotlib.pyplot'' ''plt'',
     Import ''time'' ''time'',
     Assign ''L'' (Lit ''22''),
     Bind ''g'' ''nk.graph.Hypercube''
       [(''length'', Var ''L''), (''n_dim'', Lit ''1''), (''pbc'', Lit ''True'')],
     Bind ''hi'' ''nk.hilbert.Spin''
       [(''s'', Lit ''0.5''), (''total_sz'', Lit ''0''), (''N'', Lit ''g.n_nodes'')],
     Bind ''ha'' ''nk.operator.Heisenberg'' [(''hilbert'', Var ''hi''), (''graph'', Var ''g'')],
     Bind ''evals'' ''nk.exact.lanczos_ed''
       [(''0'', Var ''ha''), (''compute_eigenvectors'', Lit ''False'')],
     Assign ''exact_gs_energy'' (Lit ''evals[0]''),
     Pass ''print'',
     Import ''flax.nnx'' ''nnx'',
     Import ''jax.numpy'' ''jnp'',
     Import ''jax'' ''jax'',
     ClassDef ''Jastrow'',
     Bind ''ma'' ''Jastrow'' [(''N'', Lit ''hi.size''), (''rngs'', Lit ''nnx.Rngs(0)'')],
     Pass ''print'',
     Bind ''sa'' ''nk.sampler.MetropolisExchange'' [(''hilbert'', Var ''hi''), (''graph'', Var ''g'')],
     Bind ''op'' ''nk.optimizer.Sgd'' [(''learning_rate'', Lit ''0.01'')],
     Bind ''sr'' ''nk.optimizer.SR'' [(''diag_shift'', Lit ''0.1''), (''holomorphic'', Lit ''False'')],
     Bind ''vs'' ''nk.vqs.MCState'' [(''0'', Var ''sa''), (''1'', Var ''ma''), (''n_samples'', Lit ''1008'')],
     Bind ''gs'' ''nk.VMC''
       [(''hamiltonian'', Var ''ha''), (''optimizer'', Var ''op''),
        (''preconditioner'', Var ''sr''), (''variational_state'', Var ''vs'')],
     Bind ''start'' ''time.time'' [],
     Run ''gs'' 300 ''Jastrow'',
     Bind ''end'' ''time.time'' [],
     Pass ''print'',
     Load ''data_Jastrow'' ''Jastrow.log'',
     Subscript ''iters_Jastrow'' ''data_Jastrow'' [''Energy'', ''iters''],
     Subscript ''energy_Jastrow'' ''data_Jastrow'' [''Energy'', ''Mean'', ''real''],
     Pass ''plot'',
     Bind ''ma'' ''nk.models.RBM'' [(''alpha'', Lit ''1'')],
     Bind ''sa'' ''nk.sampler.MetropolisExchange'' [(''hilbert'', Var ''hi''), (''graph'', Var ''g'')],
     Bind ''op'' ''nk.optimizer.Sgd'' [(''learning_rate'', Lit ''0.05'')],
     Bind ''sr'' ''nk.optimizer.SR'' [(''diag_shift'', Lit ''0.1'')],
     Bind ''vs'' ''nk.vqs.MCState'' [(''0'', Var ''sa''), (''1'', Var ''ma''), (''n_samples'', Lit ''1008'')],
     Bind ''gs'' ''nk.VMC''
       [(''hamiltonian'', Var ''ha''), (''optimizer'', Var ''op''),
        (''preconditioner'', Var ''sr''), (''variational_state'', Var ''vs'')],
     Bind ''start'' ''time.time'' [],
     Run ''gs'' 600 ''RBM'',
     Bind ''end'' ''time.time'' [],
     Pass ''print'',
     Load ''data'' ''RBM.log'',
     Subscript ''iters_RBM'' ''data'' [''Energy'', ''iters''],
     Subscript ''energy_RBM'' ''data'' [''Energy'', ''Mean''],
     Pass ''plot'',
     Bind ''ma'' ''nk.models.RBMSymm'' [(''symmetries'', Lit ''g.translation_group()''), (''alpha'', Lit ''1'')],
     Bind ''sa'' ''nk.sampler.MetropolisExchange'' [(''0'', Var ''hi''), (''graph'', Var ''g'')],
     Bind ''op'' ''nk.optimizer.Sgd'' [(''learning_rate'', Lit ''0.01'')],
     Bind ''sr'' ''nk.optimizer.SR'' [(''diag_shift'', Lit ''0.1'')],
     Bind ''vs'' ''nk.vqs.MCState'' [(''0'', Var ''sa''), (''1'', Var ''ma''), (''n_samples'', Lit ''1008'')],
     Bind ''gs'' ''nk.VMC''
       [(''hamiltonian'', Var ''ha''), (''optimizer'', Var ''op''),
        (''preconditioner'', Var ''sr''), (''variational_state'', Var ''vs'')],
     Bind ''start'' ''time.time'' [],
     Run ''gs'' 300 ''RBMSymmetric'',
     Bind ''end'' ''time.time'' [],
     Pass ''print'',
     Load ''data'' ''RBMSymmetric.log'',
     Subscript ''iters_symRBM'' ''data'' [''Energy'', ''iters''],
     Subscript ''energy_symRBM'' ''data'' [''Energy'', ''Mean''],
     Pass ''plot'',
     ClassDef ''Model'',
     Bind ''ffnn'' ''Model'' [(''N'', Lit ''hi.size''), (''rngs'', Lit ''nnx.Rngs(1)'')],
     Bind ''sa'' ''nk.sampler.MetropolisExchange'' [(''0'', Var ''hi''), (''graph'', Var ''g'')],
     Bind ''vs'' ''nk.vqs.MCState'' [(''0'', Var ''sa''), (''1'', Var ''ffnn''), (''n_samples'', Lit ''1008'')],
     Bind ''opt'' ''nk.optimizer.Sgd'' [(''learning_rate'', Lit ''0.05'')],
     Bind ''sr'' ''nk.optimizer.SR'' [(''diag_shift'', Lit ''0.1''), (''holomorphic'', Lit ''False'')],
     Bind ''gs'' ''nk.VMC''
       [(''hamiltonian'', Var ''ha''), (''optimizer'', Var ''op''),
        (''preconditioner'', Var ''sr''), (''variational_state'', Var ''vs'')],
     Bind ''start'' ''time.time'' [],
     Run ''gs'' 300 ''FF'',
     Bind ''end'' ''time.time'' [],
     Pass ''print'',
     Load ''data'' ''FF.log'',
     Subscript ''iters_FF'' ''data'' [''Energy'', ''iters''],
     Subscript ''energy_FF'' ''data'' [''Energy'', ''Mean'', ''real''],
     Pass ''plot'',
     ClassDef ''Model2'',
     Bind ''ffnn2'' ''Model2'' [(''N'', Lit ''hi.size''), (''rngs'', Lit ''nnx.Rngs(1)'')],
     Bind ''vs'' ''nk.vqs.MCState'' [(''0'', Var ''sa''), (''1'', Var ''ffnn''), (''n_samples'', Lit ''1008'')],
     Bind ''opt'' ''nk.optimizer.Sgd'' [(''learning_rate'', Lit ''0.05'')],
     Bind ''sr'' ''nk.optimizer.SR'' [(''diag_shift'', Lit ''0.1''), (''holomorphic'', Lit ''False'')],
     Bind ''gs'' ''nk.VMC''
       [(''hamiltonian'', Var ''ha''), (''optimizer'', Var ''op''),
        (''preconditioner'', Var ''sr''), (''variational_state'', Var ''vs'')],
     Bind ''start'' ''time.time'' [],
     Run ''gs'' 600 ''FF2'',
     Bind ''end'' ''time.time'' [],
     Pass ''print'',
     Load ''data'' ''FF2.log'',
     Subscript ''iters_FF_morelayers'' ''data'' [''Energy'', ''iters''],
     Subscript ''energy_FF_morelayers'' ''data'' [''Energy'', ''Mean'', ''real''],
     Pass ''plot'']"

text \<open>The assignments to an environment variable and the imports among the events.\<close>

fun env_writes :: "string \<Rightarrow> (nat \<times> event) list \<Rightarrow> (nat \<times> string) list" where
  "env_writes k [] = []"
| "env_writes k ((i, EnvWritten k' v) # es) =
     (if k' = k then (i, v) # env_writes k es else env_writes k es)"
| "env_writes k (e # es) = env_writes k es"

fun imports_of :: "(nat \<times> event) list \<Rightarrow> (nat \<times> string) list" where
  "imports_of [] = []"
| "imports_of ((i, Imported m) # es) = (i, m) # imports_of es"
| "imports_of (e # es) = imports_of es"

text \<open>The value of an environment variable after each statement.\<close>

fun env_trace :: "string \<Rightarrow> nat \<Rightarrow> stmt list \<Rightarrow> nb_state \<Rightarrow> string option list" where
  "env_trace k i [] s = []"
| "env_trace k i (c # cs) s =
     (case exec_stmt i c s of
        Inl e \<Rightarrow> []
      | Inr s' \<Rightarrow> map_of (environ s') k # env_trace k (Suc i) cs s')"

definition run_cells :: "stmt list \<Rightarrow> error + nb_state" where
  "run_cells prog = exec_from 0 prog initial"

text \<open>
  For each run: its output name, the class of the model it trains, and whether its sampler
  and its optimizer were built after the previous run (after the start, for the first run).
\<close>

fun run_reports :: "obj list \<Rightarrow> nat \<Rightarrow> run list \<Rightarrow> (string \<times> string \<times> bool \<times> bool) list" where
  "run_reports h t [] = []"
| "run_reports h t (r # rs) =
     (run_out r, cls (h ! run_model r), t < born (h ! run_sampler r),
      t < born (h ! run_optimizer r)) # run_reports h (run_at r) rs"

definition runs_of :: "stmt list \<Rightarrow> run list" where
  "runs_of prog = (case run_cells prog of Inl e \<Rightarrow> [] | Inr s \<Rightarrow> runs s)"

definition reports_of :: "stmt list \<Rightarrow> (string \<times> string \<times> bool \<times> bool) list" where
  "reports_of prog =
     (case run_cells prog of Inl e \<Rightarrow> [] | Inr s \<Rightarrow> run_reports (heap s) 0 (runs s))"

definition events_of :: "stmt list \<Rightarrow> (nat \<times> event) list" where
  "events_of prog = (case run_cells prog of Inl e \<Rightarrow> [] | Inr s \<Rightarrow> events s)"

definition bound_in :: "stmt list \<Rightarrow> string list \<Rightarrow> val option list" where
  "bound_in prog xs =
     (case run_cells prog of Inl e \<Rightarrow> [] | Inr s \<Rightarrow> map (map_of (vars s)) xs)"

text \<open>The variables the plots read.\<close>

definition plotted :: "string list" where
  "plotted =
     [''iters_Jastrow'', ''energy_Jastrow'', ''iters_RBM'', ''energy_RBM'',
      ''iters_symRBM'', ''energy_symRBM'', ''iters_FF'', ''energy_FF'',
      ''iters_FF_morelayers'', ''energy_FF_morelayers'']"

text \<open>Everything observed of a program at once.\<close>

definition observed ::
    "stmt list \<Rightarrow>
     (run list \<times> (string \<times> string \<times> bool \<times> bool) list \<times> (nat \<times> event) list \<times>
      val option list \<times> val option list) option" where
  "observed prog =
     (case run_cells prog of
        Inl e \<Rightarrow> None
      | Inr s \<Rightarrow>
          Some (runs s, run_reports (heap s) 0 (runs s), events s,
                map (map_of (vars s)) [''ffnn'', ''ffnn2''], map (map_of (vars s)) plotted))"

subsection \<open>Concrete parameters and inputs\<close>

text \<open>Small parameter sets (\<open>N = 1\<close>) and a batch of two configurations.\<close>

definition example_Jastrow :: Jastrow where
  "example_Jastrow = \<lparr>J = \<lparr>shape = [1, 1], data = [\<i>]\<rparr>, v_bias = \<lparr>shape = [1, 1], data = [2]\<rparr>\<rparr>"

definition example_Model :: Model where
  "example_Model =
     \<lparr>linear = \<lparr>kernel = RealArray \<lparr>shape = [1, 2], data = [2, 3]\<rparr>,
                bias = RealArray \<lparr>shape = [2], data = [1, 1]\<rparr>\<rparr>\<rparr>"

definition example_Model2 :: Model2 where
  "example_Model2 =
     \<lparr>linear1 = \<lparr>kernel = RealArray \<lparr>shape = [1, 2], data = [2, 3]\<rparr>,
                 bias = RealArray \<lparr>shape = [2], data = [1, 1]\<rparr>\<rparr>,
      linear2 = \<lparr>kernel = RealArray \<lparr>shape = [2, 1], data = [1, - 1]\<rparr>,
                 bias = RealArray \<lparr>shape = [1], data = [4]\<rparr>\<rparr>\<rparr>"

definition example_batch :: "real ndarray" where
  "example_batch = \<lparr>shape = [2, 1], data = [1, - 1]\<rparr>"

text \<open>A log of three iterations with a further column.\<close>

definition example_log :: energy_log where
  "example_log =
     \<lparr>iters = [0, 1, 2], Mean = Plain [- 30, - 36, - 39],
      more_columns = [(''Variance'', JList [JFloat 4, JFloat 1, JFloat 0])],
      more_metrics = []\<rparr>"

section \<open>Facts about arrays\<close>

lemma length_chunks: "length (chunks n b xs) = b"
  by (induction b arbitrary: xs) simp_all

lemma chunks_nth: "i < b \<Longrightarrow> chunks n b xs ! i = take n (drop (i * n) xs)"
proof (induction b arbitrary: i xs)
  case 0
  then show ?case by simp
next
  case (Suc b)
  show ?case
  proof (cases i)
    case 0
    then show ?thesis by simp
  next
    case (Suc k)
    with Suc.prems have "k < b" by simp
    from Suc.IH[OF this] Suc show ?thesis by (simp add: add.commute)
  qed
qed

lemma chunks_concat:
  "\<forall>r \<in> set rs. length r = n \<Longrightarrow> chunks n (length rs) (concat rs) = rs"
  by (induction rs) simp_all

lemma dot_nth:
  "length u = n \<Longrightarrow> length v = n \<Longrightarrow> dot u v = (\<Sum>i\<leftarrow>[0..<n]. u ! i * v ! i)"
proof -
  assume a: "length u = n" "length v = n"
  have "map2 (*) u v = map (\<lambda>i. u ! i * v ! i) [0..<n]"
    using a by (intro nth_equalityI) simp_all
  then show ?thesis by (simp add: dot_def)
qed

section \<open>The Jastrow ansatz: results\<close>

text \<open>\<^verbatim>\<open>__init__\<close> gives the parameters their shapes, and the shapes fit the entries.\<close>

lemma Jastrow_init_shapes: "Jastrow_shapes N (Jastrow_init N normal1 normal2)"
  by (simp add: Jastrow_shapes_def Jastrow_init_def)

lemma Jastrow_shapes_valid:
  "Jastrow_shapes N m \<Longrightarrow> valid_array (J m) \<and> valid_array (v_bias m)"
  by (simp add: Jastrow_shapes_def valid_array_def)

text \<open>
  The two operands of the sum in \<^verbatim>\<open>Jastrow.__call__\<close> always have one shape, so the sum never
  broadcasts.
\<close>

lemma Jastrow_sum_same_shape:
  assumes "einsum_xJx x Jm = Inr quad" and "matmul x V = Inr xv" and "squeeze_last xv = Inr lin"
  shows "shape quad = shape lin"
proof -
  from assms(1) have q: "shape quad = butlast (shape x)"
    by (auto simp add: einsum_xJx_def split: if_splits)
  from assms(2) obtain k where "shape xv = butlast (shape x) @ [k]"
    by (auto simp add: matmul_def split: list.splits if_splits)
  with assms(3) have "shape lin = butlast (shape x)"
    by (auto simp add: squeeze_last_def split: if_splits)
  with q show ?thesis by simp
qed

lemma mat_row_length:
  "length A = n * n \<Longrightarrow> i < n \<Longrightarrow> length (mat_row n A i) = n"
proof -
  assume a: "length A = n * n" "i < n"
  then have "Suc i \<le> n" by simp
  then have "Suc i * n \<le> n * n" by (rule mult_le_mono1)
  then have "n \<le> n * n - i * n" by simp
  with a show ?thesis by (simp add: mat_row_def)
qed

lemma mat_row_nth:
  "length A = n * n \<Longrightarrow> i < n \<Longrightarrow> j < n \<Longrightarrow> mat_row n A i ! j = A ! (i * n + j)"
proof -
  assume a: "length A = n * n" "i < n" "j < n"
  then have "Suc i \<le> n" by simp
  then have "Suc i * n \<le> n * n" by (rule mult_le_mono1)
  then have "i * n + j < n * n" using a by simp
  with a show ?thesis by (simp add: mat_row_def)
qed

lemma sum_list_upt_cong:
  "(\<And>i. i < n \<Longrightarrow> f i = g i) \<Longrightarrow> (\<Sum>i\<leftarrow>[0..<n]. f i) = (\<Sum>i\<leftarrow>[0..<n]. (g i :: complex))"
  by (rule arg_cong[where f = sum_list]) simp

lemma einsum_row_quadratic_form:
  assumes "length A = n * n" "length r = n"
  shows "einsum_row n A r = quadratic_form n A r"
proof -
  have "quadratic_form n A r = (\<Sum>i\<leftarrow>[0..<n]. r ! i * dot (mat_row n A i) r)"
  proof -
    have "dot r (mat_vec n A r) = (\<Sum>i\<leftarrow>[0..<n]. r ! i * mat_vec n A r ! i)"
      by (rule dot_nth) (simp_all add: assms mat_vec_def)
    also have "\<dots> = (\<Sum>i\<leftarrow>[0..<n]. r ! i * dot (mat_row n A i) r)"
      by (rule sum_list_upt_cong) (simp add: mat_vec_def)
    finally show ?thesis by (simp add: quadratic_form_def)
  qed
  also have "\<dots> = (\<Sum>i\<leftarrow>[0..<n]. r ! i * (\<Sum>j\<leftarrow>[0..<n]. A ! (i * n + j) * r ! j))"
  proof (rule sum_list_upt_cong)
    fix i assume i: "i < n"
    have "dot (mat_row n A i) r = (\<Sum>j\<leftarrow>[0..<n]. mat_row n A i ! j * r ! j)"
      by (rule dot_nth) (simp_all add: assms i mat_row_length)
    also have "\<dots> = (\<Sum>j\<leftarrow>[0..<n]. A ! (i * n + j) * r ! j)"
      by (rule sum_list_upt_cong) (simp add: assms i mat_row_nth)
    finally show "r ! i * dot (mat_row n A i) r = r ! i * (\<Sum>j\<leftarrow>[0..<n]. A ! (i * n + j) * r ! j)"
      by simp
  qed
  also have "\<dots> = einsum_row n A r"
    unfolding einsum_row_def
    by (rule sum_list_upt_cong) (simp add: sum_list_const_mult mult.assoc)
  finally show ?thesis by simp
qed

lemma matvec_row_one:
  assumes "length b = n" "length r = n"
  shows "matvec_row n (Suc 0) b r = [dot r b]"
  by (simp add: matvec_row_def dot_nth[OF assms(2) assms(1)])

lemma Jastrow_call_vector:
  assumes "Jastrow_shapes n m" "shape x = [n]" "length (data x) = n"
  shows "Jastrow_call m x =
    Inr \<lparr>shape = [], data = [einsum_row n (data (J m)) (map complex_of_real (data x)) +
       dot (map complex_of_real (data x)) (data (v_bias m))]\<rparr>"
  using assms
  by (simp add: Jastrow_call_def Jastrow_shapes_def astype_complex_def einsum_xJx_def
      rows_of_def matmul_def squeeze_last_def add_arrays_def matvec_row_one)

lemma index_bound: "i < n \<Longrightarrow> j < n \<Longrightarrow> i * n + j < n * (n::nat)"
proof -
  assume a: "i < n" "j < n"
  then have "Suc i \<le> n" by simp
  then have "Suc i * n \<le> n * n" by (rule mult_le_mono1)
  then show ?thesis using a by simp
qed

lemma transpose_matrix_nth:
  "i < n \<Longrightarrow> j < n \<Longrightarrow> transpose_matrix n A ! (i * n + j) = A ! (j * n + i)"
  by (simp add: transpose_matrix_def index_bound)

lemma symmetric_part_nth:
  "i < n \<Longrightarrow> j < n \<Longrightarrow> symmetric_part n A ! (i * n + j) = (A ! (i * n + j) + A ! (j * n + i)) / 2"
  by (simp add: symmetric_part_def index_bound transpose_matrix_nth)

lemma einsum_row_sum: "einsum_row n A r = (\<Sum>i<n. \<Sum>j<n. r ! i * A ! (i * n + j) * r ! j)"
  by (simp add: einsum_row_def interv_sum_list_conv_sum_set_nat atLeast0LessThan)

lemma einsum_row_transpose: "einsum_row n (transpose_matrix n A) r = einsum_row n A r"
proof -
  have "einsum_row n (transpose_matrix n A) r = (\<Sum>i<n. \<Sum>j<n. r ! i * A ! (j * n + i) * r ! j)"
    unfolding einsum_row_sum
    by (intro sum.cong refl) (simp add: transpose_matrix_nth)
  also have "\<dots> = (\<Sum>j<n. \<Sum>i<n. r ! i * A ! (j * n + i) * r ! j)"
    by (rule sum.swap)
  also have "\<dots> = einsum_row n A r"
    unfolding einsum_row_sum
    by (intro sum.cong refl) (simp add: mult_ac)
  finally show ?thesis .
qed

lemma einsum_row_symmetric_part: "einsum_row n (symmetric_part n A) r = einsum_row n A r"
proof -
  have "einsum_row n (symmetric_part n A) r =
      (\<Sum>i<n. \<Sum>j<n. (r ! i * A ! (i * n + j) * r ! j + r ! i * transpose_matrix n A ! (i * n + j) * r ! j) / 2)"
    unfolding einsum_row_sum
  proof (intro sum.cong refl)
    fix i j assume "i \<in> {..<n}" "j \<in> {..<n}"
    then have ij: "i < n" "j < n" by simp_all
    have "r ! i * symmetric_part n A ! (i * n + j) * r ! j =
        r ! i * ((A ! (i * n + j) + transpose_matrix n A ! (i * n + j)) / 2) * r ! j"
      by (simp only: symmetric_part_nth[OF ij] transpose_matrix_nth[OF ij])
    also have "\<dots> = (r ! i * A ! (i * n + j) * r ! j +
        r ! i * transpose_matrix n A ! (i * n + j) * r ! j) / 2"
      by (simp add: distrib_left distrib_right add_divide_distrib)
    finally show "r ! i * symmetric_part n A ! (i * n + j) * r ! j =
        (r ! i * A ! (i * n + j) * r ! j +
         r ! i * transpose_matrix n A ! (i * n + j) * r ! j) / 2" .
  qed
  also have "\<dots> = (einsum_row n A r + einsum_row n (transpose_matrix n A) r) / 2"
    unfolding einsum_row_sum
    by (simp add: sum.distrib flip: sum_divide_distrib)
  finally show ?thesis by (simp add: einsum_row_transpose)
qed

text \<open>
  Claim C3. On a configuration vector \<open>x\<close> of length \<open>N\<close>, \<^verbatim>\<open>Jastrow.__call__\<close> returns one
  complex scalar (an array of shape \<open>()\<close>): the dot product of \<open>x\<close> with the bias vector
  plus the quadratic form \<open>x\<^sup>T J x\<close> over the \<open>N\<close> by \<open>N\<close> matrix \<open>J\<close>.
\<close>

theorem Jastrow_call_formula:
  assumes "Jastrow_shapes n m" and "shape x = [n]" and "length (data x) = n"
  shows "Jastrow_call m x =
    Inr \<lparr>shape = [],
         data = [dot (map complex_of_real (data x)) (data (v_bias m)) +
                 quadratic_form n (data (J m)) (map complex_of_real (data x))]\<rparr>"
proof -
  have "einsum_row n (data (J m)) (map complex_of_real (data x)) =
      quadratic_form n (data (J m)) (map complex_of_real (data x))"
    using assms by (intro einsum_row_quadratic_form) (simp_all add: Jastrow_shapes_def)
  with Jastrow_call_vector[OF assms] show ?thesis by (simp add: add.commute)
qed

theorem Jastrow_call_formula_witness:
  "Jastrow_shapes 2 \<lparr>J = \<lparr>shape = [2, 2], data = [1, \<i>, 2, 3]\<rparr>, v_bias = \<lparr>shape = [2, 1], data = [5, 7]\<rparr>\<rparr> \<and>
   Jastrow_call \<lparr>J = \<lparr>shape = [2, 2], data = [1, \<i>, 2, 3]\<rparr>, v_bias = \<lparr>shape = [2, 1], data = [5, 7]\<rparr>\<rparr>
     \<lparr>shape = [2], data = [1, -1]\<rparr> = Inr \<lparr>shape = [], data = [- \<i>]\<rparr>"
proof -
  have s: "Jastrow_shapes 2 \<lparr>J = \<lparr>shape = [2, 2], data = [1, \<i>, 2, 3]\<rparr>, v_bias = \<lparr>shape = [2, 1], data = [5, 7]\<rparr>\<rparr>"
    by (simp add: Jastrow_shapes_def)
  have v: "dot (map complex_of_real [1, -1]) [5, 7] +
      quadratic_form 2 [1, \<i>, 2, 3] (map complex_of_real [1, -1]) = - \<i>"
    by (simp add: dot_def quadratic_form_def mat_vec_def mat_row_def upt_rec)
  from Jastrow_call_formula[OF s, of "\<lparr>shape = [2], data = [1, -1]\<rparr>"] s v show ?thesis
    by simp
qed

text \<open>
  Claim C10, as amended. In exact complex arithmetic, for every input \<open>x\<close>,
  \<^verbatim>\<open>Jastrow.__call__\<close> returns the same result when the coupling matrix \<open>J\<close> is replaced by
  its transpose, and when it is replaced by its symmetric part: only the symmetric part of
  \<open>J\<close> contributes to the exact value. In \<^verbatim>\<open>complex128\<close> the two computed results can
  differ in the last bit, as the example after the theorem shows.
\<close>

theorem Jastrow_transpose_invariant:
  assumes "Jastrow_shapes n m"
  shows "Jastrow_call (m\<lparr>J := \<lparr>shape = [n, n], data = transpose_matrix n (data (J m))\<rparr>\<rparr>) x = Jastrow_call m x
    \<and> Jastrow_call (m\<lparr>J := \<lparr>shape = [n, n], data = symmetric_part n (data (J m))\<rparr>\<rparr>) x = Jastrow_call m x"
proof -
  from assms have sh: "shape (J m) = [n, n]" by (simp add: Jastrow_shapes_def)
  have t: "einsum_xJx y \<lparr>shape = [n, n], data = transpose_matrix n (data (J m))\<rparr> = einsum_xJx y (J m)" for y
    by (cases "last (shape y) = n") (auto simp add: einsum_xJx_def sh einsum_row_transpose)
  have s: "einsum_xJx y \<lparr>shape = [n, n], data = symmetric_part n (data (J m))\<rparr> = einsum_xJx y (J m)" for y
    by (cases "last (shape y) = n") (auto simp add: einsum_xJx_def sh einsum_row_symmetric_part)
  show ?thesis by (simp add: Jastrow_call_def Let_def t s cong: sum.case_cong)
qed

theorem Jastrow_transpose_invariant_witness:
  "Jastrow_shapes 2 \<lparr>J = \<lparr>shape = [2, 2], data = [1, \<i>, 2, 3]\<rparr>, v_bias = \<lparr>shape = [2, 1], data = [5, 7]\<rparr>\<rparr> \<and>
   Jastrow_call \<lparr>J = \<lparr>shape = [2, 2], data = [1, 2, \<i>, 3]\<rparr>, v_bias = \<lparr>shape = [2, 1], data = [5, 7]\<rparr>\<rparr>
     \<lparr>shape = [2], data = [1, -1]\<rparr> =
   Jastrow_call \<lparr>J = \<lparr>shape = [2, 2], data = [1, \<i>, 2, 3]\<rparr>, v_bias = \<lparr>shape = [2, 1], data = [5, 7]\<rparr>\<rparr>
     \<lparr>shape = [2], data = [1, -1]\<rparr> \<and>
   Jastrow_call \<lparr>J = \<lparr>shape = [2, 2], data = [1, (\<i> + 2) / 2, (2 + \<i>) / 2, 3]\<rparr>, v_bias = \<lparr>shape = [2, 1], data = [5, 7]\<rparr>\<rparr>
     \<lparr>shape = [2], data = [1, -1]\<rparr> =
   Jastrow_call \<lparr>J = \<lparr>shape = [2, 2], data = [1, \<i>, 2, 3]\<rparr>, v_bias = \<lparr>shape = [2, 1], data = [5, 7]\<rparr>\<rparr>
     \<lparr>shape = [2], data = [1, -1]\<rparr>"
proof -
  have s: "Jastrow_shapes 2 \<lparr>J = \<lparr>shape = [2, 2], data = [1, \<i>, 2, 3]\<rparr>, v_bias = \<lparr>shape = [2, 1], data = [5, 7]\<rparr>\<rparr>"
    by (simp add: Jastrow_shapes_def)
  have t: "transpose_matrix 2 [1, \<i>, 2, 3] = [1, 2, \<i>, 3]"
    by (simp add: transpose_matrix_def upt_rec)
  have p: "symmetric_part 2 [1, \<i>, 2, 3] = [1, (\<i> + 2) / 2, (2 + \<i>) / 2, 3]"
    by (simp add: symmetric_part_def t upt_rec)
  from Jastrow_transpose_invariant[OF s, of "\<lparr>shape = [2], data = [1, -1]\<rparr>"] s t p
  show ?thesis by simp
qed

subsection \<open>Transposition in \<^verbatim>\<open>complex128\<close>\<close>

lemma exponent_search_numeral:
  "exponent_search (numeral k) a =
     (if 2 \<le> a then exponent_search (pred_numeral k) (a / 2) + 1
      else if a < 1 then exponent_search (pred_numeral k) (2 * a) - 1
      else 0)"
  by (simp add: numeral_eq_Suc)

lemmas c128_arith = round_float64_def round_even_def exponent_search_numeral
  c128_add_def c128_mul_def Let_def complex_eq_iff

lemma round_float64_tenth: "round_float64 (1 / 10) = 3602879701896397 / 36028797018963968"
  by (simp add: c128_arith)

lemma rounding_Jastrow_data:
  "data (J rounding_Jastrow) =
     [complex_of_real (round_float64 (1 / 10)), complex_of_real (round_float64 (1 / 10)), 1, 0]"
  by (simp add: rounding_Jastrow_def)

lemma rounding_Jastrow_transposed_data:
  "data (J rounding_Jastrow_transposed) =
     [complex_of_real (round_float64 (1 / 10)), 1, complex_of_real (round_float64 (1 / 10)), 0]"
  by (simp add: rounding_Jastrow_transposed_def rounding_Jastrow_def transpose_matrix_def upt_rec)

lemma Jastrow_call_c128_row:
  assumes "shape (J m) = [2, 2]" and "shape (v_bias m) = [2, 1]" and "data (v_bias m) = [0, 0]"
  shows "Jastrow_call_c128 ord m \<lparr>shape = [2], data = [1, 1]\<rparr> =
     Inr \<lparr>shape = [], data = [c128_add (einsum_row_c128 ord 2 (data (J m)) [1, 1]) 0]\<rparr>"
  using assms
  apply (simp add: Jastrow_call_c128_def einsum_xJx_c128_def matmul_c128_def squeeze_last_def
      add_arrays_c128_def rows_of_def astype_complex_def matvec_row_c128_def c128_sum_def upt_rec)
  apply (simp add: c128_arith)
  done

lemma einsum_row_c128_rounding:
  "einsum_row_c128 One_pass 2 (data (J rounding_Jastrow)) [1, 1] =
     complex_of_real (5404319552844595 / 4503599627370496)"
  "einsum_row_c128 One_pass 2 (data (J rounding_Jastrow_transposed)) [1, 1] =
     complex_of_real (5404319552844596 / 4503599627370496)"
  "einsum_row_c128 Left_first 2 (data (J rounding_Jastrow)) [1, 1] =
     complex_of_real (5404319552844596 / 4503599627370496)"
  "einsum_row_c128 Left_first 2 (data (J rounding_Jastrow_transposed)) [1, 1] =
     complex_of_real (5404319552844595 / 4503599627370496)"
  "einsum_row_c128 Right_first 2 (data (J rounding_Jastrow)) [1, 1] =
     complex_of_real (5404319552844595 / 4503599627370496)"
  "einsum_row_c128 Right_first 2 (data (J rounding_Jastrow_transposed)) [1, 1] =
     complex_of_real (5404319552844596 / 4503599627370496)"
  unfolding rounding_Jastrow_data rounding_Jastrow_transposed_data
       apply (simp_all add: einsum_row_c128_def c128_sum_def upt_rec)
       apply (simp_all add: c128_arith)
  done

lemma c128_add_zero_rounding:
  "c128_add (complex_of_real (5404319552844595 / 4503599627370496)) 0 =
     complex_of_real (5404319552844595 / 4503599627370496)"
  "c128_add (complex_of_real (5404319552844596 / 4503599627370496)) 0 =
     complex_of_real (5404319552844596 / 4503599627370496)"
  by (simp_all add: c128_arith)

text \<open>
  In \<^verbatim>\<open>complex128\<close> the value of \<^verbatim>\<open>Jastrow.__call__\<close> changes when \<open>J\<close> is replaced by its
  transpose: with the coupling matrix \<open>((0.1, 0.1), (1, 0))\<close> and a zero bias, on the
  configuration \<open>(1, 1)\<close> the call returns \<open>1.2\<close> (the binary64 number
  \<open>5404319552844595 / 2\<^sup>5\<^sup>2\<close>) with one matrix and that number's successor with the other, in
  each order of contraction.
\<close>

theorem Jastrow_transpose_rounding_counterexample:
  "Jastrow_shapes 2 rounding_Jastrow \<and>
   data (J rounding_Jastrow) =
     [complex_of_real (3602879701896397 / 36028797018963968),
      complex_of_real (3602879701896397 / 36028797018963968), 1, 0] \<and>
   data (J rounding_Jastrow_transposed) =
     [complex_of_real (3602879701896397 / 36028797018963968), 1,
      complex_of_real (3602879701896397 / 36028797018963968), 0] \<and>
   Jastrow_call_c128 One_pass rounding_Jastrow \<lparr>shape = [2], data = [1, 1]\<rparr> =
     Inr \<lparr>shape = [], data = [complex_of_real (5404319552844595 / 4503599627370496)]\<rparr> \<and>
   Jastrow_call_c128 One_pass rounding_Jastrow_transposed \<lparr>shape = [2], data = [1, 1]\<rparr> =
     Inr \<lparr>shape = [], data = [complex_of_real (5404319552844596 / 4503599627370496)]\<rparr> \<and>
   Jastrow_call_c128 Left_first rounding_Jastrow \<lparr>shape = [2], data = [1, 1]\<rparr> =
     Inr \<lparr>shape = [], data = [complex_of_real (5404319552844596 / 4503599627370496)]\<rparr> \<and>
   Jastrow_call_c128 Left_first rounding_Jastrow_transposed \<lparr>shape = [2], data = [1, 1]\<rparr> =
     Inr \<lparr>shape = [], data = [complex_of_real (5404319552844595 / 4503599627370496)]\<rparr> \<and>
   Jastrow_call_c128 Right_first rounding_Jastrow \<lparr>shape = [2], data = [1, 1]\<rparr> =
     Inr \<lparr>shape = [], data = [complex_of_real (5404319552844595 / 4503599627370496)]\<rparr> \<and>
   Jastrow_call_c128 Right_first rounding_Jastrow_transposed \<lparr>shape = [2], data = [1, 1]\<rparr> =
     Inr \<lparr>shape = [], data = [complex_of_real (5404319552844596 / 4503599627370496)]\<rparr> \<and>
   (\<forall>ord. Jastrow_call_c128 ord rounding_Jastrow \<lparr>shape = [2], data = [1, 1]\<rparr> \<noteq>
          Jastrow_call_c128 ord rounding_Jastrow_transposed \<lparr>shape = [2], data = [1, 1]\<rparr>)"
proof -
  have s: "shape (J rounding_Jastrow) = [2, 2]" "shape (v_bias rounding_Jastrow) = [2, 1]"
    "data (v_bias rounding_Jastrow) = [0, 0]"
    by (simp_all add: rounding_Jastrow_def)
  have t: "shape (J rounding_Jastrow_transposed) = [2, 2]"
    "shape (v_bias rounding_Jastrow_transposed) = [2, 1]"
    "data (v_bias rounding_Jastrow_transposed) = [0, 0]"
    by (simp_all add: rounding_Jastrow_transposed_def rounding_Jastrow_def)
  have shapes: "Jastrow_shapes 2 rounding_Jastrow"
    by (simp add: Jastrow_shapes_def rounding_Jastrow_def)
  have d: "data (J rounding_Jastrow) =
     [complex_of_real (3602879701896397 / 36028797018963968),
      complex_of_real (3602879701896397 / 36028797018963968), 1, 0]"
    "data (J rounding_Jastrow_transposed) =
     [complex_of_real (3602879701896397 / 36028797018963968), 1,
      complex_of_real (3602879701896397 / 36028797018963968), 0]"
    unfolding rounding_Jastrow_data rounding_Jastrow_transposed_data round_float64_tenth
    by simp_all
  have c: "Jastrow_call_c128 One_pass rounding_Jastrow \<lparr>shape = [2], data = [1, 1]\<rparr> =
     Inr \<lparr>shape = [], data = [complex_of_real (5404319552844595 / 4503599627370496)]\<rparr>"
   "Jastrow_call_c128 One_pass rounding_Jastrow_transposed \<lparr>shape = [2], data = [1, 1]\<rparr> =
     Inr \<lparr>shape = [], data = [complex_of_real (5404319552844596 / 4503599627370496)]\<rparr>"
   "Jastrow_call_c128 Left_first rounding_Jastrow \<lparr>shape = [2], data = [1, 1]\<rparr> =
     Inr \<lparr>shape = [], data = [complex_of_real (5404319552844596 / 4503599627370496)]\<rparr>"
   "Jastrow_call_c128 Left_first rounding_Jastrow_transposed \<lparr>shape = [2], data = [1, 1]\<rparr> =
     Inr \<lparr>shape = [], data = [complex_of_real (5404319552844595 / 4503599627370496)]\<rparr>"
   "Jastrow_call_c128 Right_first rounding_Jastrow \<lparr>shape = [2], data = [1, 1]\<rparr> =
     Inr \<lparr>shape = [], data = [complex_of_real (5404319552844595 / 4503599627370496)]\<rparr>"
   "Jastrow_call_c128 Right_first rounding_Jastrow_transposed \<lparr>shape = [2], data = [1, 1]\<rparr> =
     Inr \<lparr>shape = [], data = [complex_of_real (5404319552844596 / 4503599627370496)]\<rparr>"
    unfolding Jastrow_call_c128_row[OF s] Jastrow_call_c128_row[OF t] einsum_row_c128_rounding
      c128_add_zero_rounding
    by (rule refl)+
  have n: "Jastrow_call_c128 ord rounding_Jastrow \<lparr>shape = [2], data = [1, 1]\<rparr> \<noteq>
          Jastrow_call_c128 ord rounding_Jastrow_transposed \<lparr>shape = [2], data = [1, 1]\<rparr>" for ord
    by (cases ord) (simp_all add: c)
  from shapes d c n show ?thesis by blast
qed

section \<open>The feed-forward ansatz definitions and batches: results\<close>

lemma Linear_shapes_RealArray:
  "Linear_shapes n k \<lparr>kernel = RealArray W, bias = RealArray b\<rparr> =
     (shape W = [n, k] \<and> length (data W) = n * k \<and> shape b = [k] \<and> length (data b) = k)"
  by (simp add: Linear_shapes_def promoted_kernel_def promoted_bias_def astype_complex_def)




lemma Linear_shapes_valid:
  "Linear_shapes n k L \<Longrightarrow> valid_array (promoted_kernel L) \<and> valid_array (promoted_bias L)"
  by (simp add: Linear_shapes_def valid_array_def)

lemma chunks_lengths:
  "length xs = b * n \<Longrightarrow> r \<in> set (chunks n b xs) \<Longrightarrow> length r = n"
proof (induction b arbitrary: xs)
  case 0
  then show ?case by simp
next
  case (Suc b)
  from Suc.prems(1) have "length (drop n xs) = b * n" by simp
  from Suc.IH[OF this] Suc.prems show ?case by auto
qed

lemma chunks_map: "chunks n b (map f xs) = map (map f) (chunks n b xs)"
  by (induction b arbitrary: xs) (simp_all add: take_map drop_map)

lemma concat_map_singleton: "concat (map (\<lambda>r. [f r]) rs) = map f rs"
  by (induction rs) simp_all

lemma map2_map_map: "map2 f (map g rs) (map h rs) = map (\<lambda>r. f (g r) (h r)) rs"
  by (induction rs) simp_all

lemma length_matvec_row: "length (matvec_row n k W r) = k"
  by (simp add: matvec_row_def)

lemma length_Linear_row: "length (data (promoted_bias L)) = k \<Longrightarrow> length (Linear_row n k L r) = k"
  by (simp add: Linear_row_def length_matvec_row)

lemma matmul_rows:
  assumes "shape V = [n, k]" "shape x = s @ [n]"
  shows "matmul x V = Inr \<lparr>shape = s @ [k], data = concat (map (matvec_row n k (data V)) (chunks n (prod_list s) (data x)))\<rparr>"
  using assms by (simp add: matmul_def rows_of_def)

lemma Linear_call_rows:
  assumes "Linear_shapes n k L" "shape x = s @ [n]"
  shows "Linear_call L x = Inr \<lparr>shape = s @ [k],
     data = concat (map (Linear_row n k L) (chunks n (prod_list s) (data x)))\<rparr>"
proof -
  let ?rs = "chunks n (prod_list s) (data x)"
  from assms have sh: "shape (promoted_kernel L) = [n, k]" "shape (promoted_bias L) = [k]"
    by (simp_all add: Linear_shapes_def)
  have "chunks k (prod_list s) (concat (map (matvec_row n k (data (promoted_kernel L))) ?rs)) =
      map (matvec_row n k (data (promoted_kernel L))) ?rs"
    using chunks_concat[of "map (matvec_row n k (data (promoted_kernel L))) ?rs" k]
    by (simp add: length_matvec_row length_chunks)
  then show ?thesis
    by (simp add: Linear_call_def matmul_rows[OF sh(1) assms(2)] add_bias_def sh rows_of_def
        Linear_row_def[abs_def] comp_def)
qed

lemma sum_last_rows:
  assumes "shape a = s @ [k]" "data a = concat rs" "length rs = prod_list s" "\<forall>r\<in>set rs. length r = k"
  shows "sum_last a = Inr \<lparr>shape = s, data = map sum_list rs\<rparr>"
  using assms chunks_concat[of rs k] by (simp add: sum_last_def rows_of_def)

lemma Model_call_rows:
  assumes "Model_shapes n m" "shape x = s @ [n]"
  shows "Model_call f m x = Inr \<lparr>shape = s,
     data = map (\<lambda>r. sum_list (map f (Linear_row n (2 * n) (linear m) r)))
       (chunks n (prod_list s) (map complex_of_real (data x)))\<rparr>"
proof -
  let ?rs = "chunks n (prod_list s) (map complex_of_real (data x))"
  from assms have L: "Linear_shapes n (2 * n) (linear m)" by (simp add: Model_shapes_def)
  then have b: "length (data (promoted_bias (linear m))) = 2 * n" by (simp add: Linear_shapes_def)
  have lc: "Linear_call (linear m) (astype_complex x) = Inr \<lparr>shape = s @ [2 * n],
     data = concat (map (Linear_row n (2 * n) (linear m)) ?rs)\<rparr>"
    using Linear_call_rows[OF L, of "astype_complex x" s] assms(2) by (simp add: astype_complex_def)
  have "sum_last (map_array f \<lparr>shape = s @ [2 * n],
     data = concat (map (Linear_row n (2 * n) (linear m)) ?rs)\<rparr>) =
     Inr \<lparr>shape = s, data = map sum_list (map (\<lambda>r. map f (Linear_row n (2 * n) (linear m) r)) ?rs)\<rparr>"
    by (rule sum_last_rows[where k = "2 * n"])
      (simp_all add: map_array_def map_concat comp_def length_chunks length_Linear_row[OF b])
  with lc show ?thesis by (simp add: Model_call_def comp_def)
qed

lemma Model2_call_rows:
  assumes "Model2_shapes n m" "shape x = s @ [n]"
  shows "Model2_call f m x = Inr \<lparr>shape = s,
     data = map (\<lambda>r. sum_list (map f (Linear_row (2 * n) n (linear2 m)
                 (map f (Linear_row n (2 * n) (linear1 m) r)))))
       (chunks n (prod_list s) (map complex_of_real (data x)))\<rparr>"
proof -
  let ?rs = "chunks n (prod_list s) (map complex_of_real (data x))"
  let ?h = "\<lambda>r. map f (Linear_row n (2 * n) (linear1 m) r)"
  from assms have L: "Linear_shapes n (2 * n) (linear1 m)" "Linear_shapes (2 * n) n (linear2 m)"
    by (simp_all add: Model2_shapes_def)
  then have b: "length (data (promoted_bias (linear1 m))) = 2 * n" "length (data (promoted_bias (linear2 m))) = n"
    by (simp_all add: Linear_shapes_def)
  have lc: "Linear_call (linear1 m) (astype_complex x) = Inr \<lparr>shape = s @ [2 * n],
     data = concat (map (Linear_row n (2 * n) (linear1 m)) ?rs)\<rparr>"
    using Linear_call_rows[OF L(1), of "astype_complex x" s] assms(2) by (simp add: astype_complex_def)
  have ch: "chunks (2 * n) (prod_list s) (concat (map ?h ?rs)) = map ?h ?rs"
    using chunks_concat[of "map ?h ?rs" "2 * n"]
    by (simp add: length_chunks length_Linear_row[OF b(1)])
  have l2: "Linear_call (linear2 m) (map_array f \<lparr>shape = s @ [2 * n],
     data = concat (map (Linear_row n (2 * n) (linear1 m)) ?rs)\<rparr>) =
     Inr \<lparr>shape = s @ [n], data = concat (map (Linear_row (2 * n) n (linear2 m)) (map ?h ?rs))\<rparr>"
    using Linear_call_rows[OF L(2), of "map_array f \<lparr>shape = s @ [2 * n],
     data = concat (map (Linear_row n (2 * n) (linear1 m)) ?rs)\<rparr>" s] ch
    by (simp add: map_array_def map_concat comp_def)
  have "sum_last (map_array f \<lparr>shape = s @ [n],
       data = concat (map (Linear_row (2 * n) n (linear2 m)) (map ?h ?rs))\<rparr>) =
     Inr \<lparr>shape = s, data = map sum_list
       (map (\<lambda>r. map f (Linear_row (2 * n) n (linear2 m) (?h r))) ?rs)\<rparr>"
    by (rule sum_last_rows[where k = n])
      (simp_all add: map_array_def map_concat comp_def length_chunks length_Linear_row[OF b(2)])
  with lc l2 show ?thesis by (simp add: Model2_call_def comp_def)
qed

lemma matvec_row_column:
  "matvec_row n (Suc 0) b r = [\<Sum>i\<leftarrow>[0..<n]. r ! i * b ! i]"
  by (simp add: matvec_row_def)

lemma Jastrow_call_rows:
  assumes "Jastrow_shapes n m" "shape x = s @ [n]"
  shows "Jastrow_call m x = Inr \<lparr>shape = s,
     data = map (\<lambda>r. einsum_row n (data (J m)) r + (\<Sum>i\<leftarrow>[0..<n]. r ! i * data (v_bias m) ! i))
       (chunks n (prod_list s) (map complex_of_real (data x)))\<rparr>"
proof -
  let ?rs = "chunks n (prod_list s) (map complex_of_real (data x))"
  from assms have sh: "shape (J m) = [n, n]" "shape (v_bias m) = [n, Suc 0]"
    by (simp_all add: Jastrow_shapes_def)
  have e: "einsum_xJx (astype_complex x) (J m) =
      Inr \<lparr>shape = s, data = map (einsum_row n (data (J m))) ?rs\<rparr>"
    using assms(2) by (simp add: einsum_xJx_def sh astype_complex_def rows_of_def)
  have mm: "matmul (astype_complex x) (v_bias m) =
      Inr \<lparr>shape = s @ [Suc 0], data = map (\<lambda>r. \<Sum>i\<leftarrow>[0..<n]. r ! i * data (v_bias m) ! i) ?rs\<rparr>"
    using matmul_rows[OF sh(2), of "astype_complex x" s] assms(2)
    by (simp add: astype_complex_def matvec_row_column[abs_def] concat_map_singleton)
  show ?thesis
    by (simp add: Jastrow_call_def e mm squeeze_last_def add_arrays_def map2_map_map)
qed

lemma batch_independent_rows:
  assumes rows: "\<And>x s. shape x = s @ [n] \<Longrightarrow>
      call x = Inr \<lparr>shape = s, data = map g (chunks n (prod_list s) (map complex_of_real (data x)))\<rparr>"
    and X: "shape X = [B, n]"
  shows "batch_independent call X B"
proof -
  let ?d = "map complex_of_real (data X)"
  have cX: "call X = Inr \<lparr>shape = [B], data = map g (chunks n B ?d)\<rparr>"
    using rows[of X "[B]"] X by simp
  have item: "call \<lparr>shape = [n], data = take n (drop (i * n) (data X))\<rparr> =
      Inr \<lparr>shape = [], data = [map g (chunks n B ?d) ! i]\<rparr>" if "i < B" for i
  proof -
    have "call \<lparr>shape = [n], data = take n (drop (i * n) (data X))\<rparr> =
        Inr \<lparr>shape = [], data = [g (take n (drop (i * n) ?d))]\<rparr>"
      using rows[of "\<lparr>shape = [n], data = take n (drop (i * n) (data X))\<rparr>" "[]"]
      by (simp add: take_map drop_map)
    then show ?thesis using that by (simp add: length_chunks chunks_nth)
  qed
  show ?thesis
    by (simp add: batch_independent_def cX length_chunks getitem_row_def X item)
qed






text \<open>
  Claim C6. For each of \<^verbatim>\<open>Jastrow\<close>, \<^verbatim>\<open>Model\<close> and \<^verbatim>\<open>Model2\<close> and every batch \<open>X\<close> of shape
  \<open>(B, N)\<close>, the call returns an array of shape \<open>(B)\<close> whose \<open>i\<close>-th entry is the call's
  result on the single configuration \<open>X[i]\<close>.
\<close>

theorem batch_evaluation_independent:
  assumes "Jastrow_shapes N mj" and "Model_shapes N m" and "Model2_shapes N m2"
    and "shape X = [B, N]"
  shows "batch_independent (Jastrow_call mj) X B \<and>
    batch_independent (Model_call log_cosh m) X B \<and>
    batch_independent (Model2_call log_cosh m2) X B"
proof (intro conjI)
  show "batch_independent (Jastrow_call mj) X B"
    by (rule batch_independent_rows[OF Jastrow_call_rows[OF assms(1)] assms(4)])
  show "batch_independent (Model_call log_cosh m) X B"
    by (rule batch_independent_rows[OF Model_call_rows[OF assms(2)] assms(4)])
  show "batch_independent (Model2_call log_cosh m2) X B"
    by (rule batch_independent_rows[OF Model2_call_rows[OF assms(3)] assms(4)])
qed

theorem batch_evaluation_independent_witness:
  "Jastrow_shapes 1 example_Jastrow \<and> Model_shapes 1 example_Model \<and>
   Model2_shapes 1 example_Model2 \<and> shape example_batch = [2, 1] \<and>
   batch_independent (Jastrow_call example_Jastrow) example_batch 2 \<and>
   batch_independent (Model_call (\<lambda>z. z * z) example_Model) example_batch 2 \<and>
   batch_independent (Model2_call (\<lambda>z. z * z) example_Model2) example_batch 2 \<and>
   Jastrow_call example_Jastrow example_batch = Inr \<lparr>shape = [2], data = [\<i> + 2, \<i> - 2]\<rparr> \<and>
   getitem_row example_batch 1 = Inr \<lparr>shape = [1], data = [- 1]\<rparr> \<and>
   Jastrow_call example_Jastrow \<lparr>shape = [1], data = [- 1]\<rparr> = Inr \<lparr>shape = [], data = [\<i> - 2]\<rparr>"
proof -
  have h0: "Jastrow_shapes 1 example_Jastrow"
    by (simp add: Jastrow_shapes_def example_Jastrow_def)
  have h1: "Model_shapes 1 example_Model"
    by (simp add: Model_shapes_def Linear_shapes_RealArray example_Model_def)
  have h2: "Model2_shapes 1 example_Model2"
    by (simp add: Model2_shapes_def Linear_shapes_RealArray example_Model2_def)
  have h3: "shape example_batch = [2, 1]"
    by (simp add: example_batch_def)
  have c1: "Jastrow_call example_Jastrow example_batch = Inr \<lparr>shape = [2], data = [\<i> + 2, \<i> - 2]\<rparr>"
    by (simp add: Jastrow_call_def example_Jastrow_def example_batch_def astype_complex_def
        einsum_xJx_def matmul_def squeeze_last_def add_arrays_def rows_of_def einsum_row_def
        matvec_row_def numeral_2_eq_2)
  have c2: "getitem_row example_batch 1 = Inr \<lparr>shape = [1], data = [- 1]\<rparr>"
    by (simp add: getitem_row_def example_batch_def)
  have c3: "Jastrow_call example_Jastrow \<lparr>shape = [1], data = [- 1]\<rparr> = Inr \<lparr>shape = [], data = [\<i> - 2]\<rparr>"
    by (simp add: Jastrow_call_def example_Jastrow_def astype_complex_def
        einsum_xJx_def matmul_def squeeze_last_def add_arrays_def rows_of_def einsum_row_def
        matvec_row_def)
  from batch_evaluation_independent[OF h0 h1 h2 h3, of "\<lambda>z. z * z"] h0 h1 h2 h3 c1 c2 c3
  show ?thesis by simp
qed

section \<open>The notebook's cells: results\<close>

lemma notebook_observed_eval:
  "observed notebook =
   Some
    ([\<lparr>run_out = ''Jastrow'', run_n_iter = 300, run_at = 27, run_model = 4,
        run_sampler = 5, run_optimizer = 6\<rparr>,
      \<lparr>run_out = ''RBM'', run_n_iter = 600, run_at = 41, run_model = 12,
        run_sampler = 13, run_optimizer = 14\<rparr>,
      \<lparr>run_out = ''RBMSymmetric'', run_n_iter = 300, run_at = 55, run_model = 20,
        run_sampler = 21, run_optimizer = 22\<rparr>,
      \<lparr>run_out = ''FF'', run_n_iter = 300, run_at = 70, run_model = 28,
        run_sampler = 29, run_optimizer = 22\<rparr>,
      \<lparr>run_out = ''FF2'', run_n_iter = 600, run_at = 84, run_model = 28,
        run_sampler = 29, run_optimizer = 22\<rparr>],
     [(''Jastrow'', ''Jastrow'', True, True),
      (''RBM'', ''nk.models.RBM'', True, True),
      (''RBMSymmetric'', ''nk.models.RBMSymm'', True, True),
      (''FF'', ''Model'', True, False),
      (''FF2'', ''Model'', False, False)],
     [(1, Imported ''os''), (2, EnvWritten ''JAX_PLATFORM_NAME'' ''cpu''),
      (3, Imported ''netket''), (4, Imported ''json''), (5, Imported ''numpy''),
      (6, Imported ''matplotlib.pyplot''), (7, Imported ''time''),
      (15, Imported ''flax.nnx''), (16, Imported ''jax.numpy''), (17, Imported ''jax''),
      (27, Ran ''Jastrow''), (30, Loaded ''Jastrow.log''),
      (41, Ran ''RBM''), (44, Loaded ''RBM.log''),
      (55, Ran ''RBMSymmetric''), (58, Loaded ''RBMSymmetric.log''),
      (70, Ran ''FF''), (73, Loaded ''FF.log''),
      (84, Ran ''FF2''), (87, Loaded ''FF2.log'')],
     [Some (Obj 28), Some (Obj 36)],
     [Some (Doc 0 [''Energy'', ''iters'']), Some (Doc 0 [''Energy'', ''Mean'', ''real'']),
      Some (Doc 1 [''Energy'', ''iters'']), Some (Doc 1 [''Energy'', ''Mean'']),
      Some (Doc 2 [''Energy'', ''iters'']), Some (Doc 2 [''Energy'', ''Mean'']),
      Some (Doc 3 [''Energy'', ''iters'']), Some (Doc 3 [''Energy'', ''Mean'', ''real'']),
      Some (Doc 4 [''Energy'', ''iters'']), Some (Doc 4 [''Energy'', ''Mean'', ''real''])])"
  by code_simp

lemma notebook_observed_parts:
  assumes "observed notebook = Some (a, b, c, d, e)"
  shows "runs_of notebook = a" and "reports_of notebook = b" and "events_of notebook = c"
    and "bound_in notebook [''ffnn'', ''ffnn2''] = d" and "bound_in notebook plotted = e"
  using assms
  by (auto simp add: observed_def runs_of_def reports_of_def
      events_of_def bound_in_def split: sum.splits)

lemma notebook_runs_eval:
  "runs_of notebook =
     [\<lparr>run_out = ''Jastrow'', run_n_iter = 300, run_at = 27, run_model = 4,
        run_sampler = 5, run_optimizer = 6\<rparr>,
      \<lparr>run_out = ''RBM'', run_n_iter = 600, run_at = 41, run_model = 12,
        run_sampler = 13, run_optimizer = 14\<rparr>,
      \<lparr>run_out = ''RBMSymmetric'', run_n_iter = 300, run_at = 55, run_model = 20,
        run_sampler = 21, run_optimizer = 22\<rparr>,
      \<lparr>run_out = ''FF'', run_n_iter = 300, run_at = 70, run_model = 28,
        run_sampler = 29, run_optimizer = 22\<rparr>,
      \<lparr>run_out = ''FF2'', run_n_iter = 600, run_at = 84, run_model = 28,
        run_sampler = 29, run_optimizer = 22\<rparr>]"
  by (rule notebook_observed_parts(1)[OF notebook_observed_eval])

lemma notebook_reports_eval:
  "reports_of notebook =
     [(''Jastrow'', ''Jastrow'', True, True),
      (''RBM'', ''nk.models.RBM'', True, True),
      (''RBMSymmetric'', ''nk.models.RBMSymm'', True, True),
      (''FF'', ''Model'', True, False),
      (''FF2'', ''Model'', False, False)]"
  by (rule notebook_observed_parts(2)[OF notebook_observed_eval])

lemma notebook_events_eval:
  "events_of notebook =
     [(1, Imported ''os''), (2, EnvWritten ''JAX_PLATFORM_NAME'' ''cpu''),
      (3, Imported ''netket''), (4, Imported ''json''), (5, Imported ''numpy''),
      (6, Imported ''matplotlib.pyplot''), (7, Imported ''time''),
      (15, Imported ''flax.nnx''), (16, Imported ''jax.numpy''), (17, Imported ''jax''),
      (27, Ran ''Jastrow''), (30, Loaded ''Jastrow.log''),
      (41, Ran ''RBM''), (44, Loaded ''RBM.log''),
      (55, Ran ''RBMSymmetric''), (58, Loaded ''RBMSymmetric.log''),
      (70, Ran ''FF''), (73, Loaded ''FF.log''),
      (84, Ran ''FF2''), (87, Loaded ''FF2.log'')]"
  by (rule notebook_observed_parts(3)[OF notebook_observed_eval])

lemma notebook_bound_models:
  "bound_in notebook [''ffnn'', ''ffnn2''] = [Some (Obj 28), Some (Obj 36)]"
  by (rule notebook_observed_parts(4)[OF notebook_observed_eval])

lemma notebook_bound_plotted:
  "bound_in notebook plotted =
     [Some (Doc 0 [''Energy'', ''iters'']), Some (Doc 0 [''Energy'', ''Mean'', ''real'']),
      Some (Doc 1 [''Energy'', ''iters'']), Some (Doc 1 [''Energy'', ''Mean'']),
      Some (Doc 2 [''Energy'', ''iters'']), Some (Doc 2 [''Energy'', ''Mean'']),
      Some (Doc 3 [''Energy'', ''iters'']), Some (Doc 3 [''Energy'', ''Mean'', ''real'']),
      Some (Doc 4 [''Energy'', ''iters'']), Some (Doc 4 [''Energy'', ''Mean'', ''real''])]"
  by (rule notebook_observed_parts(5)[OF notebook_observed_eval])

lemma env_trace_eval:
  "env_trace ''JAX_PLATFORM_NAME'' 0 notebook initial =
     replicate 2 None @ replicate 89 (Some ''cpu'')"
  by code_simp

text \<open>
  Claim C1 asks that each of the five runs is invoked with its own ansatz and with a sampler
  and an optimizer built for that run. Evaluated on the notebook: runs \<open>Jastrow\<close>, \<open>RBM\<close> and
  \<open>RBMSymmetric\<close> are; run \<open>FF\<close> trains \<open>ffnn\<close> with a new sampler and the optimizer of run
  \<open>RBMSymmetric\<close>; run \<open>FF2\<close> trains \<open>ffnn\<close> again (an object of class \<open>Model\<close>, not the
  \<open>Model2\<close> object bound to \<open>ffnn2\<close>) with the sampler of run \<open>FF\<close> and the optimizer of run
  \<open>RBMSymmetric\<close>.
\<close>

theorem notebook_runs_share_objects:
  "reports_of notebook =
     [(''Jastrow'', ''Jastrow'', True, True),
      (''RBM'', ''nk.models.RBM'', True, True),
      (''RBMSymmetric'', ''nk.models.RBMSymm'', True, True),
      (''FF'', ''Model'', True, False),
      (''FF2'', ''Model'', False, False)] \<and>
   map run_model (runs_of notebook) = [4, 12, 20, 28, 28] \<and>
   map run_sampler (runs_of notebook) = [5, 13, 21, 29, 29] \<and>
   map run_optimizer (runs_of notebook) = [6, 14, 22, 22, 22] \<and>
   bound_in notebook [''ffnn'', ''ffnn2''] = [Some (Obj 28), Some (Obj 36)]"
  by (simp add: notebook_reports_eval notebook_runs_eval notebook_bound_models)

text \<open>
  Claim C9. \<open>JAX_PLATFORM_NAME\<close> is assigned exactly once, by statement 2, before the imports
  of \<open>netket\<close> (statement 3) and of \<open>flax\<close> and \<open>jax\<close> (statements 15 to 17), and holds
  \<open>cpu\<close> after every later statement of the notebook.
\<close>

theorem platform_variable_set_once_before_import:
  "env_writes ''JAX_PLATFORM_NAME'' (events_of notebook) = [(2, ''cpu'')] \<and>
   imports_of (events_of notebook) =
     [(1, ''os''), (3, ''netket''), (4, ''json''), (5, ''numpy''), (6, ''matplotlib.pyplot''),
      (7, ''time''), (15, ''flax.nnx''), (16, ''jax.numpy''), (17, ''jax'')] \<and>
   length notebook = 91 \<and>
   env_trace ''JAX_PLATFORM_NAME'' 0 notebook initial =
     replicate 2 None @ replicate 89 (Some ''cpu'')"
proof -
  have "length notebook = 91" by (simp add: notebook_def)
  then show ?thesis by (simp add: notebook_events_eval env_trace_eval)
qed

section \<open>The exchange sampler: results\<close>

lemma mset_exchange: "mset (exchange i j x) = mset x"
  by (simp add: exchange_def mset_swap)

lemma sum_list_exchange: "sum_list (exchange i j x) = sum_list x"
proof -
  have "sum_mset (mset (exchange i j x)) = sum_mset (mset x)"
    by (simp only: mset_exchange)
  then show ?thesis by (simp only: sum_mset_sum_list)
qed

lemma in_hilbert_exchange:
  assumes "in_hilbert N mag x"
  shows "in_hilbert N mag (exchange i j x)"
proof -
  have "set (exchange i j x) = set x"
    using mset_exchange[of i j x] by (metis set_mset_mset)
  moreover have "length (exchange i j x) = length x"
    by (simp add: exchange_def)
  ultimately show ?thesis
    using assms by (simp add: in_hilbert_def sum_list_exchange list_all_iff)
qed

lemma in_hilbert_step:
  "in_hilbert N mag x \<Longrightarrow> in_hilbert N mag (metropolis_step edges x p)"
  by (simp add: metropolis_step_def in_hilbert_exchange)

lemma in_hilbert_visited:
  "in_hilbert N mag x \<Longrightarrow> y \<in> set (visited edges x ps) \<Longrightarrow> in_hilbert N mag y"
proof (induction ps arbitrary: x)
  case Nil
  then show ?case by simp
next
  case (Cons p ps)
  from Cons.prems(2) consider "y = x" | "y \<in> set (visited edges (metropolis_step edges x p) ps)"
    by auto
  then show ?case
  proof cases
    case 1
    with Cons.prems(1) show ?thesis by simp
  next
    case 2
    from Cons.IH[OF in_hilbert_step[OF Cons.prems(1)] 2] show ?thesis .
  qed
qed

text \<open>
  Claim C2. An exchange move on a configuration of the constrained space yields a
  configuration whose site values again sum to the fixed total, and every configuration the
  exchange sampler visits from such a configuration on the periodic chain is in the
  constrained space.
\<close>

theorem exchange_preserves_magnetization:
  assumes "in_hilbert N mag x"
  shows "sum_list (exchange i j x) = mag \<and> in_hilbert N mag (exchange i j x) \<and>
    list_all (\<lambda>y. in_hilbert N mag y \<and> sum_list y = mag) (visited (chain_edges N) x ps)"
proof -
  have "\<forall>y \<in> set (visited (chain_edges N) x ps). in_hilbert N mag y \<and> sum_list y = mag"
    using in_hilbert_visited[OF assms] by (auto simp add: in_hilbert_def)
  then show ?thesis
    using assms in_hilbert_exchange[OF assms, of i j]
    by (simp add: sum_list_exchange in_hilbert_def list_all_iff)
qed

theorem exchange_preserves_magnetization_witness:
  "in_hilbert 4 0 [1, - 1, 1, - 1] \<and>
   exchange 0 1 [1, - 1, 1, - 1] = [- 1, 1, 1, - 1] \<and>
   sum_list (exchange 0 1 [1, - 1, 1, - 1]) = 0 \<and>
   visited (chain_edges 4) [1, - 1, 1, - 1] [(0, True), (1, False), (2, True)] =
     [[1, - 1, 1, - 1], [- 1, 1, 1, - 1], [- 1, 1, 1, - 1], [- 1, 1, - 1, 1]] \<and>
   list_all (\<lambda>y. in_hilbert 4 0 y \<and> sum_list y = 0)
     (visited (chain_edges 4) [1, - 1, 1, - 1] [(0, True), (1, False), (2, True)])"
proof -
  have h: "in_hilbert 4 0 [1, - 1, 1, - 1]"
    by (simp add: in_hilbert_def)
  have e: "exchange 0 1 [1, - 1, 1, - 1] = [- 1, 1, 1, - 1]"
    by (simp add: exchange_def)
  have v: "visited (chain_edges 4) [1, - 1, 1, - 1] [(0, True), (1, False), (2, True)] =
     [[1, - 1, 1, - 1], [- 1, 1, 1, - 1], [- 1, 1, 1, - 1], [- 1, 1, - 1, 1]]"
    by code_simp
  from exchange_preserves_magnetization[OF h, of 0 1 "[(0, True), (1, False), (2, True)]"] h e
  show ?thesis by (simp only: v simp_thms)
qed

section \<open>Parameters of the restricted Boltzmann machines: results\<close>

lemma length_RBM_parameters: "length (RBM_parameters N alpha) = N + alpha * N + alpha * N * N"
  by (simp add: RBM_parameters_def length_concat comp_def sum_list_triv)

lemma set_RBMSymm_parameters:
  assumes "0 < N"
  shows "set (RBMSymm_parameters N alpha) =
    {VisibleBias 0} \<union> HiddenBias ` {..<alpha} \<union> (\<lambda>(f, d). Weight f d) ` ({..<alpha} \<times> {..<N})"
    (is "?L = ?R")
proof
  show "?L \<subseteq> ?R"
  proof
    fix p assume "p \<in> ?L"
    then obtain q where q: "q \<in> set (RBM_parameters N alpha)" and p: "p = translate_share N q"
      by (auto simp add: RBMSymm_parameters_def)
    show "p \<in> ?R"
    proof (cases q)
      case (VisibleBias i)
      with p show ?thesis by simp
    next
      case (HiddenBias h)
      with q have "h < alpha * N" by (auto simp add: RBM_parameters_def)
      then have "h div N < alpha" using assms by (simp add: less_mult_imp_div_less)
      with p HiddenBias show ?thesis by simp
    next
      case (Weight h i)
      with q have "h < alpha * N" by (auto simp add: RBM_parameters_def)
      then have "h div N < alpha" using assms by (simp add: less_mult_imp_div_less)
      moreover have "(i + N - h mod N) mod N < N" using assms by simp
      ultimately show ?thesis using p Weight by auto
    qed
  qed
  show "?R \<subseteq> ?L"
  proof
    fix p assume "p \<in> ?R"
    then consider "p = VisibleBias 0" | f where "f < alpha" "p = HiddenBias f"
      | f d where "f < alpha" "d < N" "p = Weight f d"
      by auto
    then show "p \<in> ?L"
    proof cases
      case 1
      have "VisibleBias 0 \<in> set (RBM_parameters N alpha)"
        using assms by (simp add: RBM_parameters_def)
      then have "translate_share N (VisibleBias 0) \<in> ?L"
        unfolding RBMSymm_parameters_def by (simp only: set_remdups set_map imageI)
      with 1 show ?thesis by simp
    next
      case 2
      from 2(1) assms have "f * N < alpha * N" by simp
      then have "HiddenBias (f * N) \<in> set (RBM_parameters N alpha)"
        by (simp add: RBM_parameters_def)
      then have "translate_share N (HiddenBias (f * N)) \<in> ?L"
        unfolding RBMSymm_parameters_def by (simp only: set_remdups set_map imageI)
      with 2 assms show ?thesis by simp
    next
      case 3
      from 3(1) assms have "f * N < alpha * N" by simp
      with 3(2) have "Weight (f * N) d \<in> set (concat (map (\<lambda>h. map (Weight h) [0..<N]) [0..<alpha * N]))"
        by (auto intro!: bexI[of _ "f * N"])
      then have "Weight (f * N) d \<in> set (RBM_parameters N alpha)"
        by (simp add: RBM_parameters_def)
      then have "translate_share N (Weight (f * N) d) \<in> ?L"
        unfolding RBMSymm_parameters_def by (simp only: set_remdups set_map imageI)
      with 3 assms show ?thesis by simp
    qed
  qed
qed

lemma length_RBMSymm_parameters:
  assumes "0 < N"
  shows "length (RBMSymm_parameters N alpha) = 1 + alpha + alpha * N"
proof -
  have d: "distinct (RBMSymm_parameters N alpha)"
    by (simp add: RBMSymm_parameters_def)
  have i1: "inj_on HiddenBias {..<alpha}" by (simp add: inj_on_def)
  have i2: "inj_on (\<lambda>(f, d). Weight f d) ({..<alpha} \<times> {..<N})" by (auto simp add: inj_on_def)
  have "card (set (RBMSymm_parameters N alpha)) =
      card ({VisibleBias 0} \<union> (HiddenBias ` {..<alpha} \<union> (\<lambda>(f, d). Weight f d) ` ({..<alpha} \<times> {..<N})))"
    by (simp only: set_RBMSymm_parameters[OF assms] Un_assoc)
  also have "\<dots> = card {VisibleBias 0} + card (HiddenBias ` {..<alpha} \<union> (\<lambda>(f, d). Weight f d) ` ({..<alpha} \<times> {..<N}))"
    by (rule card_Un_disjoint) auto
  also have "card (HiddenBias ` {..<alpha} \<union> (\<lambda>(f, d). Weight f d) ` ({..<alpha} \<times> {..<N})) =
      card (HiddenBias ` {..<alpha}) + card ((\<lambda>(f, d). Weight f d) ` ({..<alpha} \<times> {..<N}))"
    by (rule card_Un_disjoint) auto
  finally have "card (set (RBMSymm_parameters N alpha)) = 1 + alpha + alpha * N"
    by (simp add: card_image[OF i1] card_image[OF i2])
  with distinct_card[OF d] show ?thesis by simp
qed

text \<open>
  Claim C5. For the same hidden-unit density and the same number of sites (at least two, as
  the notebook's 22), the symmetric RBM has strictly fewer independent parameters than the
  RBM; for \<open>alpha = 1\<close> and \<open>N = 22\<close> they are 24 and 528.
\<close>

theorem symmetric_RBM_fewer_parameters:
  assumes "2 \<le> N"
  shows "length (RBMSymm_parameters N alpha) < length (RBM_parameters N alpha)"
proof -
  from assms have N: "0 < N" by simp
  have "1 + alpha + alpha * N < N + alpha * N + alpha * N * N"
  proof -
    have "1 \<le> N * N" using N by (simp add: Suc_le_eq)
    then have "alpha * 1 \<le> alpha * (N * N)" by (rule mult_le_mono2)
    then have "alpha \<le> alpha * N * N" by (simp add: mult.assoc)
    moreover have "1 < N" using assms by simp
    ultimately show ?thesis by linarith
  qed
  then show ?thesis
    by (simp only: length_RBMSymm_parameters[OF N] length_RBM_parameters)
qed

theorem symmetric_RBM_fewer_parameters_witness:
  "(2::nat) \<le> 22 \<and> length (RBM_parameters 22 1) = 528 \<and> length (RBMSymm_parameters 22 1) = 24 \<and>
   length (RBMSymm_parameters 22 1) < length (RBM_parameters 22 1)"
proof -
  have a: "length (RBM_parameters 22 1) = 528" by (simp add: length_RBM_parameters)
  have b: "length (RBMSymm_parameters 22 1) = 24" by (simp add: length_RBMSymm_parameters)
  from symmetric_RBM_fewer_parameters[of 22 1] a b show ?thesis by simp
qed

section \<open>Logs and reporting: results\<close>

lemma load_write: "load_log (write_log fs out l) (out @ ''.log'') = Inr (encode_log l)"
  by (simp add: load_log_def write_log_def)

lemma subscript_iters:
  "subscript (encode_log l) [''Energy'', ''iters''] = Inr (JList (map JInt (iters l)))"
  by (simp add: encode_log_def getitem_def)

lemma subscript_Mean:
  "subscript (encode_log l) [''Energy'', ''Mean''] = Inr (encode_mean (Mean l))"
  by (simp add: encode_log_def getitem_def)

lemma subscript_Mean_real:
  "Mean l = Decomposed re im \<Longrightarrow>
   subscript (encode_log l) [''Energy'', ''Mean'', ''real''] = Inr (JList (map JFloat re))"
  by (simp add: encode_log_def getitem_def)

lemma report_written:
  assumes "subscript (encode_log l) ks = Inr en"
  shows "report (write_log fs out l) (out @ ''.log'') ks =
    Inr (JList (map JInt (iters l)), en)"
  unfolding report_def load_write
  by (simp only: subscript_iters assms sum.case)

text \<open>
  Claim C7. Writing the log of a run under its name and reporting from the file of that name
  returns the log's sequence of iteration indices and its sequence of mean energies, read
  under \<open>Mean\<close>, \<open>real\<close> where the mean is decomposed and under \<open>Mean\<close> where it is not. The
  notebook's five runs write the five files its plotting cells load, and the cells read
  \<open>Mean\<close>, \<open>real\<close> for the runs \<open>Jastrow\<close>, \<open>FF\<close> and \<open>FF2\<close> and \<open>Mean\<close> for the runs \<open>RBM\<close> and
  \<open>RBMSymmetric\<close>.
\<close>

theorem log_round_trip:
  "report (write_log fs out (l\<lparr>Mean := Decomposed re im\<rparr>)) (out @ ''.log'')
      [''Energy'', ''Mean'', ''real''] =
     Inr (JList (map JInt (iters l)), JList (map JFloat re)) \<and>
   report (write_log fs out (l\<lparr>Mean := Plain ms\<rparr>)) (out @ ''.log'')
      [''Energy'', ''Mean''] =
     Inr (JList (map JInt (iters l)), JList (map JFloat ms)) \<and>
   map (\<lambda>r. run_out r @ ''.log'') (runs_of notebook) =
     [''Jastrow.log'', ''RBM.log'', ''RBMSymmetric.log'', ''FF.log'', ''FF2.log''] \<and>
   bound_in notebook plotted =
     [Some (Doc 0 [''Energy'', ''iters'']), Some (Doc 0 [''Energy'', ''Mean'', ''real'']),
      Some (Doc 1 [''Energy'', ''iters'']), Some (Doc 1 [''Energy'', ''Mean'']),
      Some (Doc 2 [''Energy'', ''iters'']), Some (Doc 2 [''Energy'', ''Mean'']),
      Some (Doc 3 [''Energy'', ''iters'']), Some (Doc 3 [''Energy'', ''Mean'', ''real'']),
      Some (Doc 4 [''Energy'', ''iters'']), Some (Doc 4 [''Energy'', ''Mean'', ''real''])]"
proof -
  have "subscript (encode_log (l\<lparr>Mean := Decomposed re im\<rparr>)) [''Energy'', ''Mean'', ''real''] =
      Inr (JList (map JFloat re))"
    by (rule subscript_Mean_real[where im = im]) simp
  from report_written[OF this]
  have d: "report (write_log fs out (l\<lparr>Mean := Decomposed re im\<rparr>)) (out @ ''.log'')
      [''Energy'', ''Mean'', ''real''] = Inr (JList (map JInt (iters l)), JList (map JFloat re))"
    by simp
  have "subscript (encode_log (l\<lparr>Mean := Plain ms\<rparr>)) [''Energy'', ''Mean''] =
      Inr (JList (map JFloat ms))"
    by (simp only: subscript_Mean) simp
  from report_written[OF this]
  have p: "report (write_log fs out (l\<lparr>Mean := Plain ms\<rparr>)) (out @ ''.log'')
      [''Energy'', ''Mean''] = Inr (JList (map JInt (iters l)), JList (map JFloat ms))"
    by simp
  have n: "map (\<lambda>r. run_out r @ ''.log'') (runs_of notebook) =
     [''Jastrow.log'', ''RBM.log'', ''RBMSymmetric.log'', ''FF.log'', ''FF2.log'']"
    by (simp add: notebook_runs_eval)
  show ?thesis
    by (simp only: d p n notebook_bound_plotted simp_thms)
qed

text \<open>
  On a log of three iterations: both ways of reading the mean, and what the reporting step
  does on a mean that is not decomposed and on a file no run has written.
\<close>

theorem log_round_trip_witness:
  "report (write_log Map.empty ''Jastrow'' (example_log\<lparr>Mean := Decomposed [- 30, - 36, - 39] [0, 0, 0]\<rparr>))
      ''Jastrow.log'' [''Energy'', ''Mean'', ''real''] =
     Inr (JList [JInt 0, JInt 1, JInt 2], JList [JFloat (- 30), JFloat (- 36), JFloat (- 39)]) \<and>
   report (write_log Map.empty ''RBM'' example_log) ''RBM.log'' [''Energy'', ''Mean''] =
     Inr (JList [JInt 0, JInt 1, JInt 2], JList [JFloat (- 30), JFloat (- 36), JFloat (- 39)]) \<and>
   report (write_log Map.empty ''RBM'' example_log) ''RBM.log'' [''Energy'', ''Mean'', ''real''] =
     Inl TypeError \<and>
   report (write_log Map.empty ''RBM'' example_log) ''FF.log'' [''Energy'', ''Mean''] =
     Inl FileNotFoundError"
proof -
  have e: "example_log\<lparr>Mean := Plain [- 30, - 36, - 39]\<rparr> = example_log"
    by (simp add: example_log_def)
  have i: "iters example_log = [0, 1, 2]"
    by (simp add: example_log_def)
  have t: "report (write_log Map.empty ''RBM'' example_log) ''RBM.log'' [''Energy'', ''Mean'', ''real''] =
     Inl TypeError"
    by (simp add: report_def load_log_def write_log_def encode_log_def example_log_def getitem_def)
  have f: "report (write_log Map.empty ''RBM'' example_log) ''FF.log'' [''Energy'', ''Mean''] =
     Inl FileNotFoundError"
    by (simp add: report_def load_log_def write_log_def)
  from log_round_trip[where fs = Map.empty and out = "''Jastrow''" and l = example_log
      and re = "[- 30, - 36, - 39]" and im = "[0, 0, 0]" and ms = "[- 30, - 36, - 39]"]
    log_round_trip[where fs = Map.empty and out = "''RBM''" and l = example_log
      and re = "[- 30, - 36, - 39]" and im = "[0, 0, 0]" and ms = "[- 30, - 36, - 39]"]
  show ?thesis by (simp add: e i t f)
qed

end
